theory Spec2Isabelle
  imports Complex_Main "HOL-Library.Log_Nat"
begin

section \<open>Values of the interpreter\<close>

text \<open>
  The AI service (\<^verbatim>\<open>backend/app/services/ai_service.py\<close>) works on what
  \<^verbatim>\<open>json.loads\<close> returns and on the dictionaries its callers build: dynamically typed
  values. They are modelled by the datatype \<open>json\<close>.

  Text is modelled by \<open>string\<close>, one \<open>char\<close> per code point, so the model covers text
  in the range of code points below 256; the character classes below are Python's on
  that range.

  A float is one of the three special values or a finite value, carried as the rational
  number it denotes. The code only compares floats and selects among them (\<^verbatim>\<open>min\<close>,
  \<^verbatim>\<open>max\<close>, \<^verbatim>\<open><\<close>, \<^verbatim>\<open>>\<close>), which is exact.
\<close>

datatype pyfloat = Finite rat | PInf | NInf | NaN

datatype pynum = PInt int | PFloat pyfloat

datatype json =
    JNull
  | JBool bool
  | JNum pynum
  | JStr string
  | JArr "json list"
  | JObj "(string \<times> json) list"

text \<open>
  A dictionary with string keys is an association list read with \<open>map_of\<close>; the
  dictionaries of the program have one entry per key.
\<close>

type_synonym dict = "(string \<times> json) list"

datatype exn =
    JSONDecodeError
  | TypeError
  | ValueError
  | KeyError
  | AttributeError
  | OverflowError
  | RecursionError
  | BackendError string

text \<open>\<^verbatim>\<open>d.get(k)\<close> and \<^verbatim>\<open>d.get(k, default)\<close> on a dictionary.\<close>

definition dict_get :: "dict \<Rightarrow> string \<Rightarrow> json" where
  "dict_get d k = (case map_of d k of None \<Rightarrow> JNull | Some v \<Rightarrow> v)"

definition dict_get_default :: "dict \<Rightarrow> string \<Rightarrow> json \<Rightarrow> json" where
  "dict_get_default d k dflt = (case map_of d k of None \<Rightarrow> dflt | Some v \<Rightarrow> v)"

text \<open>\<^verbatim>\<open>d[k]\<close>, which raises \<^verbatim>\<open>KeyError\<close> on a missing key.\<close>

definition dict_item :: "dict \<Rightarrow> string \<Rightarrow> exn + json" where
  "dict_item d k = (case map_of d k of None \<Rightarrow> Inl KeyError | Some v \<Rightarrow> Inr v)"

subsection \<open>Numbers\<close>

fun flt_less :: "pyfloat \<Rightarrow> pyfloat \<Rightarrow> bool" where
  "flt_less NaN _ = False"
| "flt_less _ NaN = False"
| "flt_less (Finite a) (Finite b) = (a < b)"
| "flt_less (Finite a) PInf = True"
| "flt_less (Finite a) NInf = False"
| "flt_less PInf _ = False"
| "flt_less NInf NInf = False"
| "flt_less NInf _ = True"

fun num_val :: "pynum \<Rightarrow> pyfloat" where
  "num_val (PInt n) = Finite (of_int n)"
| "num_val (PFloat f) = f"

text \<open>Python compares an int with a float by value, without rounding the int.\<close>

definition num_less :: "pynum \<Rightarrow> pynum \<Rightarrow> bool" where
  "num_less a b = flt_less (num_val a) (num_val b)"

text \<open>
  \<^verbatim>\<open>max(a, b)\<close> returns \<open>a\<close> unless \<open>b > a\<close>; \<^verbatim>\<open>min(a, b)\<close> returns \<open>a\<close> unless
  \<open>b < a\<close>. Every comparison with NaN is false.
\<close>

definition py_max :: "pynum \<Rightarrow> pynum \<Rightarrow> pynum" where
  "py_max a b = (if num_less a b then b else a)"

definition py_min :: "pynum \<Rightarrow> pynum \<Rightarrow> pynum" where
  "py_min a b = (if num_less b a then b else a)"

text \<open>
  Rounding to the nearest binary64 value, ties to even: what \<^verbatim>\<open>float\<close> does to an int
  and to a decimal literal.
\<close>

definition pow2 :: "int \<Rightarrow> rat" where
  "pow2 k = (if 0 \<le> k then 2 ^ nat k else 1 / 2 ^ nat (- k))"

definition ilog2 :: "rat \<Rightarrow> int" where
  "ilog2 a = (let (p, q) = quotient_of a; e = bitlen p - bitlen q
              in if pow2 e \<le> a then e else e - 1)"

definition round_half_even :: "rat \<Rightarrow> int" where
  "round_half_even x = (let f = \<lfloor>x\<rfloor>; d = x - of_int f
     in if d < 1 / 2 then f else if 1 / 2 < d then f + 1 else if even f then f else f + 1)"

definition round_double :: "rat \<Rightarrow> pyfloat" where
  "round_double r =
     (if r = 0 then Finite 0
      else let a = \<bar>r\<bar>;
               e = max (ilog2 a) (- 1022);
               q = pow2 (e - 52);
               v = of_int (round_half_even (a / q)) * q
           in if pow2 1024 \<le> v then (if 0 < r then PInf else NInf)
              else Finite (if 0 < r then v else - v))"

text \<open>\<^verbatim>\<open>float(n)\<close> for an int: \<^verbatim>\<open>OverflowError\<close> beyond the range of binary64.\<close>

definition float_of_int :: "int \<Rightarrow> exn + pyfloat" where
  "float_of_int n = (case round_double (of_int n) of
       Finite v \<Rightarrow> Inr (Finite v)
     | _ \<Rightarrow> Inl OverflowError)"

subsection \<open>Characters and strings\<close>

definition nl :: char where
  "nl = CHR 0x0A"

definition is_space :: "char \<Rightarrow> bool" where
  "is_space c = (let n = (of_char c :: nat)
     in (9 \<le> n \<and> n \<le> 13) \<or> (28 \<le> n \<and> n \<le> 32) \<or> n = 133 \<or> n = 160)"

text \<open>The class \<^verbatim>\<open>\w\<close> of a \<^verbatim>\<open>str\<close> pattern.\<close>

definition is_word :: "char \<Rightarrow> bool" where
  "is_word c = (let n = (of_char c :: nat)
     in (48 \<le> n \<and> n \<le> 57) \<or> (65 \<le> n \<and> n \<le> 90) \<or> n = 95 \<or> (97 \<le> n \<and> n \<le> 122)
        \<or> n = 170 \<or> n = 178 \<or> n = 179 \<or> n = 181 \<or> n = 185 \<or> n = 186
        \<or> (188 \<le> n \<and> n \<le> 190) \<or> (192 \<le> n \<and> n \<le> 214) \<or> (216 \<le> n \<and> n \<le> 246)
        \<or> (248 \<le> n \<and> n \<le> 255))"

definition lower_char :: "char \<Rightarrow> char" where
  "lower_char c = (let n = (of_char c :: nat)
     in if (65 \<le> n \<and> n \<le> 90) \<or> (192 \<le> n \<and> n \<le> 214) \<or> (216 \<le> n \<and> n \<le> 222)
        then char_of (n + 32) else c)"

definition lower :: "string \<Rightarrow> string" where
  "lower s = map lower_char s"

definition strip :: "string \<Rightarrow> string" where
  "strip s = rev (dropWhile is_space (rev (dropWhile is_space s)))"

definition startswith :: "string \<Rightarrow> string \<Rightarrow> bool" where
  "startswith s p = (take (length p) s = p)"

definition endswith :: "string \<Rightarrow> string \<Rightarrow> bool" where
  "endswith s p = (length p \<le> length s \<and> drop (length s - length p) s = p)"

definition fence :: string where
  "fence = [CHR 0x60, CHR 0x60, CHR 0x60]"

subsection \<open>The three regular expressions of the extractor\<close>

text \<open>
  \<^verbatim>\<open>re.sub(r'^```\w*\n?', '', s)\<close>: without \<^verbatim>\<open>re.MULTILINE\<close> the anchor matches at
  position 0 only, so at most one match is removed: the fence, the longest run of word
  characters, and one newline if it follows.
\<close>

definition sub_fence_open :: "string \<Rightarrow> string" where
  "sub_fence_open s =
     (if startswith s fence
      then (case dropWhile is_word (drop 3 s) of
              [] \<Rightarrow> []
            | c # r \<Rightarrow> if c = nl then r else c # r)
      else s)"

text \<open>
  \<^verbatim>\<open>re.sub(r'\n?```$', '', s)\<close>: \<^verbatim>\<open>$\<close> matches at the end of the string and before a
  newline that ends the string. The leftmost match is taken, so a newline before the
  fence belongs to it.
\<close>

definition cut_fence :: "string \<Rightarrow> string" where
  "cut_fence s =
     (if endswith s (nl # fence) then take (length s - 4) s
      else if endswith s fence then take (length s - 3) s
      else s)"

definition sub_fence_close :: "string \<Rightarrow> string" where
  "sub_fence_close s =
     (if s \<noteq> [] \<and> last s = nl
      then (if endswith (butlast s) fence then cut_fence (butlast s) @ [nl] else s)
      else cut_fence s)"

text \<open>
  \<^verbatim>\<open>re.search(r'\{[^{}]*\}', s, re.DOTALL)\<close>: the first opening brace that is followed,
  with no brace in between, by a closing brace; the match runs from the one to the other.
\<close>

definition is_brace :: "char \<Rightarrow> bool" where
  "is_brace c = (c = CHR ''{'' \<or> c = CHR ''}'')"

fun search_object :: "string \<Rightarrow> string option" where
  "search_object [] = None"
| "search_object (c # cs) =
     (if c = CHR ''{''
      then (case dropWhile (\<lambda>x. \<not> is_brace x) cs of
              [] \<Rightarrow> search_object cs
            | d # _ \<Rightarrow> if d = CHR ''}''
                       then Some (c # takeWhile (\<lambda>x. \<not> is_brace x) cs @ [d])
                       else search_object cs)
      else search_object cs)"

section \<open>The interpreter's library\<close>

text \<open>
  The functions of the standard library that the service calls and the clock are not
  code of the repository. The service is modelled over any \<open>runtime\<close> that provides
  them; each returns the exception it raises as a value.
  \<^item> \<open>loads\<close>: \<^verbatim>\<open>json.loads\<close> on a \<^verbatim>\<open>str\<close>;
  \<^item> \<open>str_to_float\<close>: \<^verbatim>\<open>float\<close> on a \<^verbatim>\<open>str\<close>;
  \<^item> \<open>to_str\<close>: \<^verbatim>\<open>str\<close>, as an f-string applies it to a value;
  \<^item> \<open>format_percent\<close>: the format specification \<^verbatim>\<open>.0%\<close>;
  \<^item> \<open>exn_str\<close>: \<^verbatim>\<open>str\<close> of an exception;
  \<^item> \<open>today\<close>: \<^verbatim>\<open>datetime.now().strftime('%Y-%m-%d')\<close>.
\<close>

record runtime =
  loads :: "string \<Rightarrow> exn + json"
  str_to_float :: "string \<Rightarrow> exn + pyfloat"
  to_str :: "json \<Rightarrow> string"
  format_percent :: "json \<Rightarrow> exn + string"
  exn_str :: "exn \<Rightarrow> string"
  today :: string

text \<open>\<^verbatim>\<open>float(v)\<close> on a value.\<close>

fun py_float :: "runtime \<Rightarrow> json \<Rightarrow> exn + pyfloat" where
  "py_float rt (JNum (PFloat f)) = Inr f"
| "py_float rt (JNum (PInt n)) = float_of_int n"
| "py_float rt (JBool b) = Inr (Finite (if b then 1 else 0))"
| "py_float rt (JStr s) = str_to_float rt s"
| "py_float rt JNull = Inl TypeError"
| "py_float rt (JArr _) = Inl TypeError"
| "py_float rt (JObj _) = Inl TypeError"

section \<open>The text extractor\<close>

text \<open>
  \<^verbatim>\<open>_extract_json\<close>. The variable \<^verbatim>\<open>text\<close> is rebound by the strip and by the two
  substitutions, so the search runs on the cleaned text. The outer handler catches
  \<^verbatim>\<open>json.JSONDecodeError\<close> only; the inner one catches everything.
\<close>

definition clean_text :: "string \<Rightarrow> string" where
  "clean_text raw =
     (let text = strip raw
      in if startswith text fence then sub_fence_close (sub_fence_open text) else text)"

definition extract_json :: "runtime \<Rightarrow> string \<Rightarrow> exn + json" where
  "extract_json rt raw =
     (let text = clean_text raw
      in case loads rt text of
           Inr v \<Rightarrow> Inr v
         | Inl e \<Rightarrow>
             if e = JSONDecodeError
             then (case search_object text of
                     Some m \<Rightarrow> (case loads rt m of Inr v \<Rightarrow> Inr v | Inl _ \<Rightarrow> Inr (JObj []))
                   | None \<Rightarrow> Inr (JObj []))
             else Inl e)"

section \<open>The schemas\<close>

text \<open>The two string enumerations of \<^verbatim>\<open>backend/app/schemas.py\<close>.\<close>

datatype Priority = LOW | MEDIUM | HIGH | URGENT

fun Priority_value :: "Priority \<Rightarrow> string" where
  "Priority_value LOW = ''low''"
| "Priority_value MEDIUM = ''medium''"
| "Priority_value HIGH = ''high''"
| "Priority_value URGENT = ''urgent''"

datatype Category = WORK | PERSONAL | HEALTH | FINANCE | LEARNING | ERRANDS | OTHER

fun Category_value :: "Category \<Rightarrow> string" where
  "Category_value WORK = ''work''"
| "Category_value PERSONAL = ''personal''"
| "Category_value HEALTH = ''health''"
| "Category_value FINANCE = ''finance''"
| "Category_value LEARNING = ''learning''"
| "Category_value ERRANDS = ''errands''"
| "Category_value OTHER = ''other''"

text \<open>\<^verbatim>\<open>[p.value for p in Priority]\<close> and \<^verbatim>\<open>[c.value for c in Category]\<close>.\<close>

definition valid_priorities :: "string list" where
  "valid_priorities = map Priority_value [LOW, MEDIUM, HIGH, URGENT]"

definition valid_categories :: "string list" where
  "valid_categories =
     map Category_value [WORK, PERSONAL, HEALTH, FINANCE, LEARNING, ERRANDS, OTHER]"

section \<open>The field validator\<close>

text \<open>
  \<^verbatim>\<open>v in xs\<close> for a list of strings: a value equals a string only if it is that
  string.
\<close>

fun py_in :: "json \<Rightarrow> string list \<Rightarrow> bool" where
  "py_in (JStr s) xs = (s \<in> set xs)"
| "py_in _ xs = False"

text \<open>
  \<^verbatim>\<open>v[:n]\<close>: strings and lists are sliced, every other value raises (a dictionary
  raises \<^verbatim>\<open>TypeError\<close> up to Python 3.11 and \<^verbatim>\<open>KeyError\<close> from 3.12 on; the model
  takes the former).
\<close>

fun py_slice_to :: "nat \<Rightarrow> json \<Rightarrow> exn + json" where
  "py_slice_to n (JStr s) = Inr (JStr (take n s))"
| "py_slice_to n (JArr xs) = Inr (JArr (take n xs))"
| "py_slice_to n _ = Inl TypeError"

record parsed_task =
  title :: json
  description :: json
  priority :: json
  category :: json
  due_date :: json
  confidence :: pynum

text \<open>
  \<^verbatim>\<open>_validate_parsed_task\<close>. The entries of the dictionary display are evaluated in
  order, so the slice of the title raises before the coercion of the confidence does;
  \<^verbatim>\<open>data.get\<close> on a value that is not a dictionary raises \<^verbatim>\<open>AttributeError\<close>.
\<close>

definition validate_parsed_task :: "runtime \<Rightarrow> json \<Rightarrow> exn + parsed_task" where
  "validate_parsed_task rt data =
     (case data of
        JObj d \<Rightarrow>
          (case py_slice_to 255 (dict_get_default d ''title'' (JStr ''New Task'')) of
             Inl e \<Rightarrow> Inl e
           | Inr t \<Rightarrow>
               (case py_float rt (dict_get_default d ''confidence'' (JNum (PFloat (Finite (1 / 2))))) of
                  Inl e \<Rightarrow> Inl e
                | Inr f \<Rightarrow>
                    Inr \<lparr> title = t,
                          description = dict_get d ''description'',
                          priority =
                            (if py_in (dict_get d ''priority'') valid_priorities
                             then dict_get_default d ''priority'' (JStr ''medium'')
                             else JStr ''medium''),
                          category =
                            (if py_in (dict_get d ''category'') valid_categories
                             then dict_get_default d ''category'' (JStr ''other'')
                             else JStr ''other''),
                          due_date = dict_get d ''due_date'',
                          confidence = py_min (py_max (PFloat f) (PInt 0)) (PInt 1) \<rparr>))
      | _ \<Rightarrow> Inl AttributeError)"

text \<open>
  The normalisation inside \<^verbatim>\<open>categorize_task\<close>, applied to the text of the backend's
  response.
\<close>

definition validate_category :: "string \<Rightarrow> string" where
  "validate_category text =
     (let category = lower (strip text)
      in if category \<in> set valid_categories then category else Category_value OTHER)"

section \<open>The fallback generator\<close>

definition fallback_parse :: "string \<Rightarrow> parsed_task" where
  "fallback_parse text =
     \<lparr> title = JStr (take 100 text),
       description = JNull,
       priority = JStr (Priority_value MEDIUM),
       category = JStr (Category_value OTHER),
       due_date = JNull,
       confidence = PFloat (Finite (1 / 2)) \<rparr>"

text \<open>
  A comparison of a value with a number: \<^verbatim>\<open>bool\<close> is an \<^verbatim>\<open>int\<close>, and a value that is
  not a number raises \<^verbatim>\<open>TypeError\<close>.
\<close>

fun json_num :: "json \<Rightarrow> pynum option" where
  "json_num (JNum n) = Some n"
| "json_num (JBool b) = Some (PInt (if b then 1 else 0))"
| "json_num _ = None"

definition py_lt :: "json \<Rightarrow> pynum \<Rightarrow> exn + bool" where
  "py_lt v c = (case json_num v of None \<Rightarrow> Inl TypeError | Some n \<Rightarrow> Inr (num_less n c))"

definition py_gt :: "json \<Rightarrow> pynum \<Rightarrow> exn + bool" where
  "py_gt v c = (case json_num v of None \<Rightarrow> Inl TypeError | Some n \<Rightarrow> Inr (num_less c n))"

record insights =
  ai_summary :: string
  ai_tips :: "string list"

definition tip_breaking :: string where
  "tip_breaking = ''Try breaking large tasks into smaller ones''"

definition tip_urgent :: string where
  "tip_urgent = ''You have many urgent tasks - consider reviewing priorities''"

definition tip_always :: string where
  "tip_always = ''Consistent daily progress leads to success''"

text \<open>
  \<^verbatim>\<open>_fallback_insights\<close>. The two tests run first, in order, then the summary is
  formatted; each can raise.
\<close>

definition fallback_insights :: "runtime \<Rightarrow> dict \<Rightarrow> exn + insights" where
  "fallback_insights rt stats =
     (case py_lt (dict_get_default stats ''completion_rate'' (JNum (PInt 0))) (PFloat (Finite (1 / 2))) of
        Inl e \<Rightarrow> Inl e
      | Inr low_rate \<Rightarrow>
          (let tips1 = (if low_rate then [tip_breaking] else [])
           in case dict_get_default stats ''by_priority'' (JObj []) of
                JObj by_priority \<Rightarrow>
                  (case py_gt (dict_get_default by_priority ''urgent'' (JNum (PInt 0))) (PInt 3) of
                     Inl e \<Rightarrow> Inl e
                   | Inr many_urgent \<Rightarrow>
                       (let tips2 = (if many_urgent then tips1 @ [tip_urgent] else tips1);
                            tips = tips2 @ [tip_always]
                        in case format_percent rt (dict_get_default stats ''completion_rate'' (JNum (PInt 0))) of
                             Inl e \<Rightarrow> Inl e
                           | Inr pct \<Rightarrow>
                               Inr \<lparr> ai_summary =
                                       ''You have '' @ to_str rt (dict_get_default stats ''total'' (JNum (PInt 0)))
                                         @ '' tasks with a '' @ pct @ '' completion rate.'',
                                     ai_tips = take 3 tips \<rparr>))
              | _ \<Rightarrow> Inl AttributeError))"

section \<open>The orchestrator\<close>

text \<open>
  The service holds the handle of the backend, or none. A call of the backend
  (\<^verbatim>\<open>self.model.generate_content(prompt)\<close>, then \<^verbatim>\<open>response.text\<close>) returns the
  text of the response or raises. Each operation returns its result together with the
  prompts it sent to the backend, in order: the calls it performed.
\<close>

type_synonym backend = "string \<Rightarrow> exn + string"

record service =
  model :: "backend option"

definition is_available :: "service \<Rightarrow> bool" where
  "is_available svc = (model svc \<noteq> None)"

definition generate_content :: "service \<Rightarrow> string \<Rightarrow> exn + string" where
  "generate_content svc prompt =
     (case model svc of None \<Rightarrow> Inl AttributeError | Some g \<Rightarrow> g prompt)"

definition join_lines :: "string list \<Rightarrow> string" where
  "join_lines ls = concat (map (\<lambda>l. l @ [nl]) (butlast ls)) @ (if ls = [] then [] else last ls)"

subsection \<open>Parsing natural language\<close>

definition parse_prompt :: "runtime \<Rightarrow> string \<Rightarrow> string" where
  \<open>parse_prompt rt text = join_lines
     [''Parse this natural language task description into structured JSON.'',
      [],
      ''Input: "'' @ text @ ''"'',
      [],
      ''Extract:'',
      ''1. title: A clear, concise task title (max 50 chars)'',
      ''2. description: Additional details (optional, can be null)'',
      ''3. priority: One of [low, medium, high, urgent] based on urgency words'',
      ''4. category: One of [work, personal, health, finance, learning, errands, other]'',
      ''5. due_date: ISO format datetime if mentioned (relative to today: '' @ today rt @ ''), or null'',
      ''6. confidence: Your confidence score 0.0-1.0'',
      [],
      ''Respond ONLY with valid JSON, no other text:'',
      ''{"title": "...", "description": "...", "priority": "...", "category": "...", "due_date": "...", "confidence": 0.0}'']\<close>

text \<open>
  \<^verbatim>\<open>parse_natural_language\<close>: the call, the extraction and the validation are inside one
  \<^verbatim>\<open>try\<close> whose handler catches \<^verbatim>\<open>Exception\<close>.
\<close>

definition parse_natural_language :: "runtime \<Rightarrow> service \<Rightarrow> string \<Rightarrow> parsed_task \<times> string list" where
  "parse_natural_language rt svc text =
     (if \<not> is_available svc then (fallback_parse text, [])
      else let prompt = parse_prompt rt text
           in ((case generate_content svc prompt of
                  Inl e \<Rightarrow> fallback_parse text
                | Inr response \<Rightarrow>
                    (case extract_json rt response of
                       Inl e \<Rightarrow> fallback_parse text
                     | Inr result \<Rightarrow>
                         (case validate_parsed_task rt result of
                            Inl e \<Rightarrow> fallback_parse text
                          | Inr task \<Rightarrow> task))),
               [prompt]))"

subsection \<open>Prioritising tasks\<close>

text \<open>
  The keys of \<^verbatim>\<open>task_map\<close> are the ids of the tasks: any hashable value. Python's
  dictionary finds a key by equality, under which \<^verbatim>\<open>1\<close>, \<^verbatim>\<open>1.0\<close> and \<^verbatim>\<open>True\<close>
  are one key; a list or a dictionary is not hashable.
\<close>

fun hashable :: "json \<Rightarrow> bool" where
  "hashable (JArr _) = False"
| "hashable (JObj _) = False"
| "hashable _ = True"

definition num_eq :: "pynum \<Rightarrow> pynum \<Rightarrow> bool" where
  "num_eq a b = (num_val a = num_val b \<and> num_val a \<noteq> NaN)"

fun key_eq :: "json \<Rightarrow> json \<Rightarrow> bool" where
  "key_eq (JStr s) (JStr t) = (s = t)"
| "key_eq JNull JNull = True"
| "key_eq a b = (case (json_num a, json_num b) of
                   (Some x, Some y) \<Rightarrow> num_eq x y
                 | _ \<Rightarrow> False)"

type_synonym task = dict

type_synonym task_map = "(json \<times> task) list"

fun map_lookup :: "task_map \<Rightarrow> json \<Rightarrow> task option" where
  "map_lookup [] k = None"
| "map_lookup ((k', t) # m) k = (if key_eq k' k then Some t else map_lookup m k)"

fun map_store :: "task_map \<Rightarrow> json \<Rightarrow> task \<Rightarrow> task_map" where
  "map_store [] k t = [(k, t)]"
| "map_store ((k', t') # m) k t =
     (if key_eq k' k then (k', t) # m else (k', t') # map_store m k t)"

text \<open>\<^verbatim>\<open>{t["id"]: t for t in tasks}\<close>, from the left; a later task replaces an earlier one.\<close>

fun build_task_map :: "task_map \<Rightarrow> task list \<Rightarrow> exn + task_map" where
  "build_task_map m [] = Inr m"
| "build_task_map m (t # ts) =
     (case dict_item t ''id'' of
        Inl e \<Rightarrow> Inl e
      | Inr k \<Rightarrow> if hashable k then build_task_map (map_store m k t) ts else Inl TypeError)"

text \<open>\<^verbatim>\<open>[t["id"] for t in tasks]\<close>.\<close>

fun task_ids :: "task list \<Rightarrow> exn + json list" where
  "task_ids [] = Inr []"
| "task_ids (t # ts) =
     (case dict_item t ''id'' of
        Inl e \<Rightarrow> Inl e
      | Inr k \<Rightarrow> (case task_ids ts of Inl e \<Rightarrow> Inl e | Inr ks \<Rightarrow> Inr (k # ks)))"

text \<open>
  Iteration over a value: the items of a list, the characters of a string, the keys of
  a dictionary; nothing else is iterable.
\<close>

fun py_iter :: "json \<Rightarrow> exn + json list" where
  "py_iter (JArr xs) = Inr xs"
| "py_iter (JStr s) = Inr (map (\<lambda>c. JStr [c]) s)"
| "py_iter (JObj kvs) = Inr (map (\<lambda>kv. JStr (fst kv)) kvs)"
| "py_iter _ = Inl TypeError"

text \<open>\<^verbatim>\<open>[task_map[tid] for tid in order if tid in task_map]\<close>, over the items of the order.\<close>

fun reorder :: "task_map \<Rightarrow> json list \<Rightarrow> exn + task list" where
  "reorder m [] = Inr []"
| "reorder m (tid # tids) =
     (if \<not> hashable tid then Inl TypeError
      else case reorder m tids of
             Inl e \<Rightarrow> Inl e
           | Inr ts \<Rightarrow> (case map_lookup m tid of None \<Rightarrow> Inr ts | Some t \<Rightarrow> Inr (t # ts)))"

record prioritization =
  prioritized_tasks :: "task list"
  reasoning :: json

text \<open>
  One line of the prompt per task; \<^verbatim>\<open>t['id']\<close> and \<^verbatim>\<open>t['title']\<close> raise
  \<^verbatim>\<open>KeyError\<close> on a task without them. This is outside the \<^verbatim>\<open>try\<close>.
\<close>

definition task_line :: "runtime \<Rightarrow> task \<Rightarrow> exn + string" where
  "task_line rt t =
     (case dict_item t ''id'' of
        Inl e \<Rightarrow> Inl e
      | Inr i \<Rightarrow>
          (case dict_item t ''title'' of
             Inl e \<Rightarrow> Inl e
           | Inr ti \<Rightarrow>
               Inr (''- ID '' @ to_str rt i @ '': '' @ to_str rt ti
                    @ '' (due: '' @ to_str rt (dict_get_default t ''due_date'' (JStr ''none''))
                    @ '', category: '' @ to_str rt (dict_get_default t ''category'' (JStr ''other''))
                    @ '')'')))"

fun task_lines :: "runtime \<Rightarrow> task list \<Rightarrow> exn + string list" where
  "task_lines rt [] = Inr []"
| "task_lines rt (t # ts) =
     (case task_line rt t of
        Inl e \<Rightarrow> Inl e
      | Inr l \<Rightarrow> (case task_lines rt ts of Inl e \<Rightarrow> Inl e | Inr ls \<Rightarrow> Inr (l # ls)))"

definition prioritize_prompt :: "string \<Rightarrow> string" where
  \<open>prioritize_prompt tasks_text = join_lines
     [''Prioritize these tasks and explain why:'',
      [],
      tasks_text,
      [],
      ''Consider:'',
      ''1. Due dates (urgent first)'',
      ''2. Category importance'',
      ''3. Task complexity'',
      [],
      ''Respond with JSON:'',
      ''{"order": [id1, id2, ...], "reasoning": "brief explanation"}'']\<close>

text \<open>The body of the \<^verbatim>\<open>try\<close> after the backend has answered.\<close>

definition reorder_by_response :: "runtime \<Rightarrow> task list \<Rightarrow> string \<Rightarrow> exn + prioritization" where
  "reorder_by_response rt tasks response =
     (case extract_json rt response of
        Inl e \<Rightarrow> Inl e
      | Inr (JObj result) \<Rightarrow>
          (case task_ids tasks of
             Inl e \<Rightarrow> Inl e
           | Inr ids \<Rightarrow>
               (case build_task_map [] tasks of
                  Inl e \<Rightarrow> Inl e
                | Inr task_map \<Rightarrow>
                    (case py_iter (dict_get_default result ''order'' (JArr ids)) of
                       Inl e \<Rightarrow> Inl e
                     | Inr order \<Rightarrow>
                         (case reorder task_map order of
                            Inl e \<Rightarrow> Inl e
                          | Inr prioritized \<Rightarrow>
                              Inr \<lparr> prioritized_tasks = prioritized,
                                    reasoning = dict_get_default result ''reasoning''
                                                  (JStr ''Prioritized by AI'') \<rparr>))))
      | Inr _ \<Rightarrow> Inl AttributeError)"

text \<open>
  \<^verbatim>\<open>prioritize_tasks\<close>. An exception of the prompt's construction leaves the
  operation; one inside the \<^verbatim>\<open>try\<close> gives the input order with the exception's text.
\<close>

definition prioritize_tasks :: "runtime \<Rightarrow> service \<Rightarrow> task list \<Rightarrow> (exn + prioritization) \<times> string list" where
  "prioritize_tasks rt svc tasks =
     (if \<not> is_available svc \<or> tasks = []
      then (Inr \<lparr> prioritized_tasks = tasks,
                  reasoning = JStr ''AI unavailable - using default order'' \<rparr>, [])
      else case task_lines rt tasks of
             Inl e \<Rightarrow> (Inl e, [])
           | Inr ls \<Rightarrow>
               (let prompt = prioritize_prompt (join_lines ls)
                in (case (case generate_content svc prompt of
                            Inl e \<Rightarrow> Inl e
                          | Inr response \<Rightarrow> reorder_by_response rt tasks response) of
                      Inl e \<Rightarrow> Inr \<lparr> prioritized_tasks = tasks,
                                     reasoning = JStr (''Error: '' @ exn_str rt e) \<rparr>
                    | Inr r \<Rightarrow> Inr r,
                    [prompt])))"

subsection \<open>Categorising a task\<close>

definition categorize_prompt :: "string \<Rightarrow> string \<Rightarrow> string" where
  "categorize_prompt ttl descr = join_lines
     [''Categorize this task into one of: work, personal, health, finance, learning, errands, other'',
      [],
      ''Task: '' @ ttl,
      (if descr \<noteq> [] then ''Description: '' @ descr else []),
      [],
      ''Respond with just the category word, nothing else.'']"

definition categorize_task :: "runtime \<Rightarrow> service \<Rightarrow> string \<Rightarrow> string \<Rightarrow> string \<times> string list" where
  "categorize_task rt svc ttl descr =
     (if \<not> is_available svc then (Category_value OTHER, [])
      else let prompt = categorize_prompt ttl descr
           in ((case generate_content svc prompt of
                  Inl e \<Rightarrow> Category_value OTHER
                | Inr response \<Rightarrow> validate_category response),
               [prompt]))"

section \<open>A JSON decoder\<close>

text \<open>
  To evaluate the service on the text of a response, \<open>json_decode\<close> decodes the JSON
  that \<^verbatim>\<open>json.loads\<close> accepts: the whitespace, strings and escapes, numbers, and the
  constants \<^verbatim>\<open>NaN\<close>, \<^verbatim>\<open>Infinity\<close> and \<^verbatim>\<open>-Infinity\<close> of Python's decoder, with
  its strict treatment of control characters and of commas. It first cuts the text into
  tokens, then builds the value token by token, with an explicit stack. A later duplicate of a key
  replaces the value of the first, as in a Python dictionary.

  Two limits of the interpreter are not modelled (the nesting depth at which it raises
  \<^verbatim>\<open>RecursionError\<close>, and the number of digits of an int), and an escape
  \<^verbatim>\<open>\uXXXX\<close> of a code point above 255, which has no \<open>char\<close>, is rejected here.
\<close>

definition is_digit :: "char \<Rightarrow> bool" where
  "is_digit c = (let n = (of_char c :: nat) in 48 \<le> n \<and> n \<le> 57)"

definition digit_val :: "char \<Rightarrow> nat" where
  "digit_val c = of_char c - 48"

definition digits_val :: "string \<Rightarrow> int" where
  "digits_val ds = foldl (\<lambda>a c. 10 * a + int (digit_val c)) 0 ds"

definition hex_val :: "char \<Rightarrow> nat option" where
  "hex_val c = (let n = (of_char c :: nat)
     in if 48 \<le> n \<and> n \<le> 57 then Some (n - 48)
        else if 65 \<le> n \<and> n \<le> 70 then Some (n - 55)
        else if 97 \<le> n \<and> n \<le> 102 then Some (n - 87)
        else None)"

fun hex_digits :: "nat \<Rightarrow> string \<Rightarrow> nat option" where
  "hex_digits a [] = Some a"
| "hex_digits a (c # cs) =
     (case hex_val c of None \<Rightarrow> None | Some h \<Rightarrow> hex_digits (16 * a + h) cs)"

definition hex4 :: "string \<Rightarrow> nat option" where
  "hex4 cs = (if length cs = 4 then hex_digits 0 cs else None)"

definition dquote :: char where
  "dquote = CHR 0x22"

definition backslash :: char where
  "backslash = CHR 0x5C"

definition unescape :: "char \<Rightarrow> char option" where
  "unescape e =
     (if e = dquote then Some dquote
      else if e = backslash then Some backslash
      else if e = CHR ''/'' then Some CHR ''/''
      else if e = CHR ''b'' then Some (CHR 0x08)
      else if e = CHR ''f'' then Some (CHR 0x0C)
      else if e = CHR ''n'' then Some (CHR 0x0A)
      else if e = CHR ''r'' then Some (CHR 0x0D)
      else if e = CHR ''t'' then Some (CHR 0x09)
      else None)"

text \<open>
  The body of a string, after the opening quote: the decoded characters and the number
  of characters read, the closing quote included.
\<close>

fun scan_string :: "string \<Rightarrow> (string \<times> nat) option" where
  "scan_string [] = None"
| "scan_string (c # cs) =
     (if c = dquote then Some ([], 1)
      else if c = backslash then
        (case cs of
           [] \<Rightarrow> None
         | e # cs' \<Rightarrow>
             if e = CHR ''u'' then
               (case hex4 (take 4 cs') of
                  None \<Rightarrow> None
                | Some n \<Rightarrow>
                    if n < 256
                    then (case scan_string (drop 4 cs') of
                            None \<Rightarrow> None
                          | Some (s, k) \<Rightarrow> Some (char_of n # s, k + 6))
                    else None)
             else (case unescape e of
                     None \<Rightarrow> None
                   | Some x \<Rightarrow>
                       (case scan_string cs' of
                          None \<Rightarrow> None
                        | Some (s, k) \<Rightarrow> Some (x # s, k + 2))))
      else if (of_char c :: nat) < 32 then None
      else (case scan_string cs of
              None \<Rightarrow> None
            | Some (s, k) \<Rightarrow> Some (c # s, Suc k)))"

definition pow10 :: "int \<Rightarrow> rat" where
  "pow10 k = (if 0 \<le> k then 10 ^ nat k else 1 / 10 ^ nat (- k))"

text \<open>The integer part of a number: a single \<^verbatim>\<open>0\<close>, or digits that start with \<^verbatim>\<open>1-9\<close>.\<close>

definition scan_int_part :: "string \<Rightarrow> nat option" where
  "scan_int_part cs =
     (case cs of
        [] \<Rightarrow> None
      | c # _ \<Rightarrow> if c = CHR ''0'' then Some 1
                 else if is_digit c then Some (length (takeWhile is_digit cs))
                 else None)"

text \<open>
  The exponent, if a complete one follows: whether there is one, its value and its
  length.
\<close>

definition scan_exponent :: "string \<Rightarrow> bool \<times> int \<times> nat" where
  "scan_exponent cs =
     (case cs of
        [] \<Rightarrow> (False, 0, 0)
      | e # r \<Rightarrow>
          if e = CHR ''e'' \<or> e = CHR ''E'' then
            (let sg = (r \<noteq> [] \<and> (hd r = CHR ''+'' \<or> hd r = CHR ''-''));
                 r' = (if sg then tl r else r);
                 ds = takeWhile is_digit r'
             in if ds = [] then (False, 0, 0)
                else (True,
                      (if sg \<and> hd r = CHR ''-'' then - digits_val ds else digits_val ds),
                      1 + (if sg then 1 else 0) + length ds))
          else (False, 0, 0))"

text \<open>
  A number and its length. With a fraction or an exponent it is a float, the decimal
  value rounded to binary64; otherwise an int.
\<close>

definition scan_number :: "string \<Rightarrow> (pynum \<times> nat) option" where
  "scan_number cs =
     (let neg = (cs \<noteq> [] \<and> hd cs = CHR ''-'');
          n0 = (if neg then 1 else 0);
          cs1 = drop n0 cs
      in case scan_int_part cs1 of
           None \<Rightarrow> None
         | Some ni \<Rightarrow>
             (let ip = take ni cs1;
                  cs2 = drop ni cs1;
                  fd = (case cs2 of
                          [] \<Rightarrow> []
                        | d # r \<Rightarrow> if d = CHR ''.'' then takeWhile is_digit r else []);
                  nf = (if fd = [] then 0 else 1 + length fd);
                  (has_exp, ex, ne) = scan_exponent (drop nf cs2)
              in if fd = [] \<and> \<not> has_exp
                 then Some (PInt (if neg then - digits_val ip else digits_val ip), n0 + ni)
                 else (let m = of_int (digits_val (ip @ fd)) * pow10 (ex - int (length fd))
                       in Some (PFloat (round_double (if neg then - m else m)), n0 + ni + nf + ne))))"

datatype token =
    TLBrace | TRBrace | TLBrack | TRBrack | TColon | TComma
  | TStr string
  | TVal json

definition is_json_ws :: "char \<Rightarrow> bool" where
  "is_json_ws c = (c = CHR '' '' \<or> c = CHR 0x09 \<or> c = CHR 0x0A \<or> c = CHR 0x0D)"

fun lex :: "string \<Rightarrow> token list option" where
  "lex [] = Some []"
| "lex (c # cs) =
     (if is_json_ws c then lex cs
      else if c = CHR ''{'' then map_option ((#) TLBrace) (lex cs)
      else if c = CHR ''}'' then map_option ((#) TRBrace) (lex cs)
      else if c = CHR ''['' then map_option ((#) TLBrack) (lex cs)
      else if c = CHR '']'' then map_option ((#) TRBrack) (lex cs)
      else if c = CHR '':'' then map_option ((#) TColon) (lex cs)
      else if c = CHR '','' then map_option ((#) TComma) (lex cs)
      else if c = dquote then
        (case scan_string cs of
           None \<Rightarrow> None
         | Some (s, k) \<Rightarrow> map_option ((#) (TStr s)) (lex (drop k cs)))
      else if startswith (c # cs) ''null'' then map_option ((#) (TVal JNull)) (lex (drop 3 cs))
      else if startswith (c # cs) ''true'' then map_option ((#) (TVal (JBool True))) (lex (drop 3 cs))
      else if startswith (c # cs) ''false'' then map_option ((#) (TVal (JBool False))) (lex (drop 4 cs))
      else if startswith (c # cs) ''NaN'' then map_option ((#) (TVal (JNum (PFloat NaN)))) (lex (drop 2 cs))
      else if startswith (c # cs) ''Infinity'' then map_option ((#) (TVal (JNum (PFloat PInf)))) (lex (drop 7 cs))
      else if startswith (c # cs) ''-Infinity'' then map_option ((#) (TVal (JNum (PFloat NInf)))) (lex (drop 8 cs))
      else (case scan_number (c # cs) of
              None \<Rightarrow> None
            | Some (n, k) \<Rightarrow> map_option ((#) (TVal (JNum n))) (lex (drop (k - 1) cs))))"

text \<open>\<^verbatim>\<open>d[k] = v\<close>: a key that is there keeps its place.\<close>

fun dict_store :: "dict \<Rightarrow> string \<Rightarrow> json \<Rightarrow> dict" where
  "dict_store [] k v = [(k, v)]"
| "dict_store ((k', v') # d) k v =
     (if k' = k then (k', v) # d else (k', v') # dict_store d k v)"

text \<open>
  The decoder's stack: an array with its items so far, the last first; an object with
  its members so far; an object and the key whose value is being read.
\<close>

datatype frame = ArrF "json list" | ObjF dict | KeyF dict string

text \<open>
  What the decoder expects next: a value; a value or the end of an array just opened;
  a key; a key or the end of an object just opened; the colon after a key; or, a value
  being complete, what may follow it.
\<close>

datatype mode = MValue | MFirst | MKey | MFirstKey | MColon | MAfter json

definition open_value :: "frame list \<Rightarrow> token \<Rightarrow> (mode \<times> frame list) option" where
  "open_value st tok =
     (case tok of
        TVal v \<Rightarrow> Some (MAfter v, st)
      | TStr s \<Rightarrow> Some (MAfter (JStr s), st)
      | TLBrack \<Rightarrow> Some (MFirst, ArrF [] # st)
      | TLBrace \<Rightarrow> Some (MFirstKey, ObjF [] # st)
      | _ \<Rightarrow> None)"

definition open_key :: "frame list \<Rightarrow> token \<Rightarrow> (mode \<times> frame list) option" where
  "open_key st tok =
     (case tok of
        TStr k \<Rightarrow> (case st of ObjF d # st' \<Rightarrow> Some (MColon, KeyF d k # st') | _ \<Rightarrow> None)
      | _ \<Rightarrow> None)"

definition after_value :: "json \<Rightarrow> frame list \<Rightarrow> token \<Rightarrow> (mode \<times> frame list) option" where
  "after_value v st tok =
     (case st of
        ArrF acc # st' \<Rightarrow>
          (case tok of
             TComma \<Rightarrow> Some (MValue, ArrF (v # acc) # st')
           | TRBrack \<Rightarrow> Some (MAfter (JArr (rev (v # acc))), st')
           | _ \<Rightarrow> None)
      | KeyF d k # st' \<Rightarrow>
          (case tok of
             TComma \<Rightarrow> Some (MKey, ObjF (dict_store d k v) # st')
           | TRBrace \<Rightarrow> Some (MAfter (JObj (dict_store d k v)), st')
           | _ \<Rightarrow> None)
      | _ \<Rightarrow> None)"

definition parse_step :: "mode \<times> frame list \<Rightarrow> token \<Rightarrow> (mode \<times> frame list) option" where
  "parse_step ms tok =
     (case ms of (m, st) \<Rightarrow>
        (case m of
           MValue \<Rightarrow> open_value st tok
         | MFirst \<Rightarrow> (if tok = TRBrack then Some (MAfter (JArr []), tl st) else open_value st tok)
         | MKey \<Rightarrow> open_key st tok
         | MFirstKey \<Rightarrow> (if tok = TRBrace then Some (MAfter (JObj []), tl st) else open_key st tok)
         | MColon \<Rightarrow> (if tok = TColon then Some (MValue, st) else None)
         | MAfter v \<Rightarrow> after_value v st tok))"

fun parse_tokens :: "mode \<times> frame list \<Rightarrow> token list \<Rightarrow> json option" where
  "parse_tokens ms [] = (case ms of (MAfter v, []) \<Rightarrow> Some v | _ \<Rightarrow> None)"
| "parse_tokens ms (tok # toks) =
     (case parse_step ms tok of None \<Rightarrow> None | Some ms' \<Rightarrow> parse_tokens ms' toks)"

definition json_decode :: "string \<Rightarrow> exn + json" where
  "json_decode s =
     (case lex s of
        None \<Rightarrow> Inl JSONDecodeError
      | Some ts \<Rightarrow>
          (case parse_tokens (MValue, []) ts of None \<Rightarrow> Inl JSONDecodeError | Some v \<Rightarrow> Inr v))"

section \<open>A runtime to evaluate the service\<close>

text \<open>
  \<^verbatim>\<open>float(s)\<close> on a string: surrounding whitespace is dropped; then a sign, and
  \<^verbatim>\<open>inf\<close>, \<^verbatim>\<open>infinity\<close> or \<^verbatim>\<open>nan\<close> in any case, or a decimal number whose digits
  may be grouped by single underscores, with an optional exponent. Anything else raises
  \<^verbatim>\<open>ValueError\<close>.
\<close>

fun digit_group :: "string \<Rightarrow> string \<times> nat" where
  "digit_group [] = ([], 0)"
| "digit_group (c # cs) =
     (if is_digit c then (case digit_group cs of (ds, k) \<Rightarrow> (c # ds, Suc k))
      else if c = CHR ''_'' then
        (case cs of
           [] \<Rightarrow> ([], 0)
         | d # r \<Rightarrow> if is_digit d then (case digit_group r of (ds, k) \<Rightarrow> (d # ds, k + 2))
                    else ([], 0))
      else ([], 0))"

text \<open>The digits of a digit part, without the underscores, and its length.\<close>

definition digit_part :: "string \<Rightarrow> string \<times> nat" where
  "digit_part cs =
     (case cs of
        [] \<Rightarrow> ([], 0)
      | c # r \<Rightarrow> if is_digit c then (case digit_group r of (ds, k) \<Rightarrow> (c # ds, Suc k))
                 else ([], 0))"

definition float_exponent :: "string \<Rightarrow> (int \<times> nat) option" where
  "float_exponent cs =
     (case cs of
        [] \<Rightarrow> None
      | e # r \<Rightarrow>
          if e = CHR ''e'' \<or> e = CHR ''E'' then
            (let sg = (r \<noteq> [] \<and> (hd r = CHR ''+'' \<or> hd r = CHR ''-''));
                 r' = (if sg then tl r else r)
             in case digit_part r' of (ds, k) \<Rightarrow>
                  if ds = [] then None
                  else Some ((if sg \<and> hd r = CHR ''-'' then - digits_val ds else digits_val ds),
                             1 + (if sg then 1 else 0) + k))
          else None)"

definition float_number :: "string \<Rightarrow> rat option" where
  "float_number cs =
     (case digit_part cs of (ip, ki) \<Rightarrow>
        (let r1 = drop ki cs;
             dot = (r1 \<noteq> [] \<and> hd r1 = CHR ''.'')
         in case (if dot then digit_part (tl r1) else ([], 0)) of (fp, kf) \<Rightarrow>
              (let r2 = drop (if dot then Suc kf else 0) r1
               in if ip = [] \<and> fp = [] then None
                  else case (if r2 = [] then Some (0, 0) else float_exponent r2) of
                         None \<Rightarrow> None
                       | Some (ex, ke) \<Rightarrow>
                           if drop ke r2 = []
                           then Some (of_int (digits_val (ip @ fp)) * pow10 (ex - int (length fp)))
                           else None)))"

definition float_literal :: "string \<Rightarrow> exn + pyfloat" where
  "float_literal s =
     (let t = strip s;
          neg = (t \<noteq> [] \<and> hd t = CHR ''-'');
          sg = (t \<noteq> [] \<and> (hd t = CHR ''+'' \<or> hd t = CHR ''-''));
          r = (if sg then tl t else t);
          w = lower r
      in if w = ''inf'' \<or> w = ''infinity'' then Inr (if neg then NInf else PInf)
         else if w = ''nan'' then Inr NaN
         else case float_number r of
                None \<Rightarrow> Inl ValueError
              | Some m \<Rightarrow> Inr (round_double (if neg then - m else m)))"

text \<open>The decimal digits of a natural number, and of an int.\<close>

fun show_digits :: "nat \<Rightarrow> nat \<Rightarrow> string" where
  "show_digits 0 n = []"
| "show_digits (Suc fuel) n =
     (if n < 10 then [char_of (48 + n)]
      else show_digits fuel (n div 10) @ [char_of (48 + n mod 10)])"

definition show_nat :: "nat \<Rightarrow> string" where
  "show_nat n = show_digits (Suc n) n"

definition show_int :: "int \<Rightarrow> string" where
  "show_int i = (if i < 0 then CHR ''-'' # show_nat (nat (- i)) else show_nat (nat i))"

text \<open>
  The format \<^verbatim>\<open>.0%\<close>: the number as a float, times 100 in binary64, rounded to an
  integer, ties to even. A string raises \<^verbatim>\<open>ValueError\<close>, any other value that is not
  a number \<^verbatim>\<open>TypeError\<close>.
\<close>

definition percent_of_float :: "pyfloat \<Rightarrow> string" where
  "percent_of_float f =
     (case f of
        NaN \<Rightarrow> ''nan%''
      | PInf \<Rightarrow> ''inf%''
      | NInf \<Rightarrow> ''-inf%''
      | Finite q \<Rightarrow>
          (case round_double (q * 100) of
             Finite v \<Rightarrow> (if v < 0 then CHR ''-'' # show_nat (nat (round_half_even (- v)))
                          else show_nat (nat (round_half_even v))) @ ''%''
           | PInf \<Rightarrow> ''inf%''
           | NInf \<Rightarrow> ''-inf%''
           | NaN \<Rightarrow> ''nan%''))"

fun percent :: "json \<Rightarrow> exn + string" where
  "percent (JNum (PFloat f)) = Inr (percent_of_float f)"
| "percent (JNum (PInt n)) =
     (case float_of_int n of Inl e \<Rightarrow> Inl e | Inr f \<Rightarrow> Inr (percent_of_float f))"
| "percent (JBool b) = Inr (if b then ''100%'' else ''0%'')"
| "percent (JStr s) = Inl ValueError"
| "percent _ = Inl TypeError"

text \<open>
  The display of a value, as Python prints \<^verbatim>\<open>None\<close>, a boolean, an int or a string.
  The digits Python chooses for a float, and its display of lists and dictionaries, are
  not reproduced: this runtime prints a mark for them. No statement below reads it.
\<close>

fun display :: "json \<Rightarrow> string" where
  "display JNull = ''None''"
| "display (JBool b) = (if b then ''True'' else ''False'')"
| "display (JNum (PInt n)) = show_int n"
| "display (JNum (PFloat f)) = ''<float>''"
| "display (JStr s) = s"
| "display (JArr xs) = ''<list>''"
| "display (JObj d) = ''<dict>''"

text \<open>The text of an exception: here the name of its class, or the backend's message.\<close>

fun exn_name :: "exn \<Rightarrow> string" where
  "exn_name JSONDecodeError = ''JSONDecodeError''"
| "exn_name TypeError = ''TypeError''"
| "exn_name ValueError = ''ValueError''"
| "exn_name KeyError = ''KeyError''"
| "exn_name AttributeError = ''AttributeError''"
| "exn_name OverflowError = ''OverflowError''"
| "exn_name RecursionError = ''RecursionError''"
| "exn_name (BackendError m) = m"

definition py :: runtime where
  "py = \<lparr> loads = json_decode,
          str_to_float = float_literal,
          to_str = display,
          format_percent = percent,
          exn_str = exn_name,
          today = ''2024-01-01'' \<rparr>"

section \<open>Notions used in the statements\<close>

text \<open>A task has the id \<open>tid\<close> when its \<^verbatim>\<open>id\<close> entry is the same dictionary key.\<close>

definition has_id :: "task \<Rightarrow> json \<Rightarrow> bool" where
  "has_id t tid = (case map_of t ''id'' of None \<Rightarrow> False | Some k \<Rightarrow> key_eq k tid)"

text \<open>
  The extractor as the specification words it: when the direct parse of the cleaned text
  fails, the search for an object runs on the original text, as it was received.
\<close>

definition extract_json_searching_original :: "runtime \<Rightarrow> string \<Rightarrow> exn + json" where
  "extract_json_searching_original rt raw =
     (case loads rt (clean_text raw) of
        Inr v \<Rightarrow> Inr v
      | Inl e \<Rightarrow>
          if e = JSONDecodeError
          then (case search_object raw of
                  Some m \<Rightarrow> (case loads rt m of Inr v \<Rightarrow> Inr v | Inl _ \<Rightarrow> Inr (JObj []))
                | None \<Rightarrow> Inr (JObj []))
          else Inl e)"

section \<open>Properties of the fallback generator and of the orchestrator\<close>

text \<open>
  C5. With the backend unavailable (no model handle), \<^verbatim>\<open>parse_natural_language\<close>
  returns exactly the fallback record: the title is the input text cut to 100
  characters, there is no description and no due date, the priority is \<^verbatim>\<open>medium\<close>,
  the category \<^verbatim>\<open>other\<close> and the confidence 0.5. The result is a function of the
  text alone, and no prompt is sent to the backend.
\<close>

theorem parse_unavailable:
  "parse_natural_language rt (svc\<lparr>model := None\<rparr>) text =
     (\<lparr> title = JStr (take 100 text), description = JNull, priority = JStr ''medium'',
        category = JStr ''other'', due_date = JNull, confidence = PFloat (Finite (1 / 2)) \<rparr>, [])"
  by (simp add: parse_natural_language_def is_available_def fallback_parse_def)

theorem parse_unavailable_witness:
  "parse_natural_language py \<lparr>model = None\<rparr> ''Buy milk tomorrow'' =
     (\<lparr> title = JStr ''Buy milk tomorrow'', description = JNull, priority = JStr ''medium'',
        category = JStr ''other'', due_date = JNull, confidence = PFloat (Finite (1 / 2)) \<rparr>, [])"
  using parse_unavailable [of py "\<lparr>model = None\<rparr>" "''Buy milk tomorrow''"] by simp

text \<open>
  C7. \<^verbatim>\<open>prioritize_tasks\<close> on the empty list of tasks returns the empty list with the
  reasoning \<^verbatim>\<open>AI unavailable - using default order\<close>, whatever the service's backend
  handle is, and sends no prompt to the backend.
\<close>

theorem prioritize_empty:
  "prioritize_tasks rt svc [] =
     (Inr \<lparr> prioritized_tasks = [], reasoning = JStr ''AI unavailable - using default order'' \<rparr>, [])"
  by (simp add: prioritize_tasks_def)

theorem prioritize_empty_witness:
  "prioritize_tasks py \<lparr>model = Some (\<lambda>p. Inr ''{}'')\<rparr> [] =
     (Inr \<lparr> prioritized_tasks = [], reasoning = JStr ''AI unavailable - using default order'' \<rparr>, [])
   \<and> is_available \<lparr>model = Some (\<lambda>p. Inr ''{}'')\<rparr>"
  using prioritize_empty [of py "\<lparr>model = Some (\<lambda>p. Inr ''{}'')\<rparr>"]
  by (simp add: is_available_def)

subsection \<open>The category normalisation\<close>

lemma validate_category_valid: "validate_category x \<in> set valid_categories"
  by (simp add: validate_category_def Let_def valid_categories_def)

lemma validate_category_fixed: "c \<in> set valid_categories \<Longrightarrow> validate_category c = c"
  by (auto simp: validate_category_def valid_categories_def lower_def lower_char_def
      strip_def is_space_def)

lemma other_valid: "''other'' \<in> set valid_categories"
  by (simp add: valid_categories_def)

lemma categorize_task_valid: "fst (categorize_task rt svc t d) \<in> set valid_categories"
proof (cases "is_available svc")
  case False
  then show ?thesis by (simp add: categorize_task_def other_valid)
next
  case True
  show ?thesis
  proof (cases "generate_content svc (categorize_prompt t d)")
    case (Inl e)
    with True show ?thesis by (simp add: categorize_task_def other_valid)
  next
    case (Inr response)
    with True show ?thesis by (simp add: categorize_task_def validate_category_valid)
  qed
qed

text \<open>
  C9. The category normalisation (trim, lower-case, keep one of the seven categories,
  else \<^verbatim>\<open>other\<close>) is idempotent: its output is a fixed point. The same holds for
  \<^verbatim>\<open>categorize_task\<close> itself: a backend that answers with a category the operation
  returned gets that category back.
\<close>

theorem validate_category_idempotent:
  "validate_category (validate_category x) = validate_category x
   \<and> fst (categorize_task rt' \<lparr>model = Some (\<lambda>p. Inr (fst (categorize_task rt svc t d)))\<rparr> t' d')
       = fst (categorize_task rt svc t d)"
proof
  show "validate_category (validate_category x) = validate_category x"
    by (rule validate_category_fixed) (rule validate_category_valid)
next
  have "validate_category (fst (categorize_task rt svc t d)) = fst (categorize_task rt svc t d)"
    by (rule validate_category_fixed) (rule categorize_task_valid)
  then show "fst (categorize_task rt' \<lparr>model = Some (\<lambda>p. Inr (fst (categorize_task rt svc t d)))\<rparr> t' d')
               = fst (categorize_task rt svc t d)"
    by (simp add: categorize_task_def is_available_def generate_content_def)
qed

theorem validate_category_idempotent_witness:
  "validate_category ''  Health '' = ''health''
   \<and> validate_category (validate_category ''  Health '') = ''health''
   \<and> validate_category ''chores'' = ''other''
   \<and> validate_category (validate_category ''chores'') = ''other''"
proof -
  have a: "validate_category ''  Health '' = ''health''" by code_simp
  have b: "validate_category ''chores'' = ''other''" by code_simp
  from validate_category_idempotent [of "''  Health ''" py py "\<lparr>model = None\<rparr>" "''''" "''''" "''''" "''''"]
  have c: "validate_category (validate_category ''  Health '') = validate_category ''  Health ''" 
    by (rule conjunct1)
  from validate_category_idempotent [of "''chores''" py py "\<lparr>model = None\<rparr>" "''''" "''''" "''''" "''''"]
  have d: "validate_category (validate_category ''chores'') = validate_category ''chores''"
    by (rule conjunct1)
  from a b c d show ?thesis by simp
qed

subsection \<open>The fallback insights\<close>

text \<open>
  C6. When the completion rate and the count of urgent tasks are numbers (an absent one
  counts as 0) and the rate can be formatted, \<^verbatim>\<open>_fallback_insights\<close> returns, and its
  tips are, in this order: the tip on breaking tasks if the rate is below 0.5, the tip on
  urgent tasks if the count is above 3, and the tip on daily progress. The list is cut to
  its first three entries, which are all it has: with a rate of 0.3 and 5 urgent tasks
  the result is the three tips in that order.
\<close>

theorem fallback_insights_tips:
  assumes "json_num (dict_get_default stats ''completion_rate'' (JNum (PInt 0))) = Some c"
    and "dict_get_default stats ''by_priority'' (JObj []) = JObj bp"
    and "json_num (dict_get_default bp ''urgent'' (JNum (PInt 0))) = Some u"
    and "format_percent rt (dict_get_default stats ''completion_rate'' (JNum (PInt 0))) = Inr pct"
  shows "\<exists>r. fallback_insights rt stats = Inr r
           \<and> ai_tips r =
               take 3 ((if num_less c (PFloat (Finite (1 / 2)))
                        then [''Try breaking large tasks into smaller ones''] else [])
                       @ (if num_less (PInt 3) u
                          then [''You have many urgent tasks - consider reviewing priorities''] else [])
                       @ [''Consistent daily progress leads to success''])
           \<and> ai_tips r =
               (if num_less c (PFloat (Finite (1 / 2)))
                then [''Try breaking large tasks into smaller ones''] else [])
               @ (if num_less (PInt 3) u
                  then [''You have many urgent tasks - consider reviewing priorities''] else [])
               @ [''Consistent daily progress leads to success'']"
  using assms
  by (simp add: fallback_insights_def py_lt_def py_gt_def tip_breaking_def tip_urgent_def
      tip_always_def)

text \<open>
  The statistics of ten tasks, three of them completed and five urgent; the rate is the
  float \<^verbatim>\<open>3 / 10\<close>.
\<close>

theorem fallback_insights_tips_witness:
  "\<exists>r. fallback_insights py
          [(''total'', JNum (PInt 10)), (''completed'', JNum (PInt 3)),
           (''completion_rate'', JNum (PFloat (Finite (5404319552844595 / 18014398509481984)))),
           (''by_category'', JObj [(''work'', JNum (PInt 10))]),
           (''by_priority'', JObj [(''urgent'', JNum (PInt 5)), (''low'', JNum (PInt 5))])] = Inr r
       \<and> ai_tips r = [''Try breaking large tasks into smaller ones'',
                      ''You have many urgent tasks - consider reviewing priorities'',
                      ''Consistent daily progress leads to success'']
       \<and> length (ai_tips r) = 3"
proof -
  let ?stats = "[(''total'', JNum (PInt 10)), (''completed'', JNum (PInt 3)),
           (''completion_rate'', JNum (PFloat (Finite (5404319552844595 / 18014398509481984)))),
           (''by_category'', JObj [(''work'', JNum (PInt 10))]),
           (''by_priority'', JObj [(''urgent'', JNum (PInt 5)), (''low'', JNum (PInt 5))])]"
  have h1: "json_num (dict_get_default ?stats ''completion_rate'' (JNum (PInt 0)))
              = Some (PFloat (Finite (5404319552844595 / 18014398509481984)))"
    by (simp add: dict_get_default_def)
  have h2: "dict_get_default ?stats ''by_priority'' (JObj [])
              = JObj [(''urgent'', JNum (PInt 5)), (''low'', JNum (PInt 5))]"
    by (simp add: dict_get_default_def)
  have h3: "json_num (dict_get_default [(''urgent'', JNum (PInt 5)), (''low'', JNum (PInt 5))]
              ''urgent'' (JNum (PInt 0))) = Some (PInt 5)"
    by (simp add: dict_get_default_def)
  have h4: "format_percent py (dict_get_default ?stats ''completion_rate'' (JNum (PInt 0))) = Inr ''30%''"
    by code_simp
  from fallback_insights_tips [OF h1 h2 h3 h4] show ?thesis
    by (auto simp: num_less_def)
qed

section \<open>Properties of the field validator\<close>

lemma clamp_low: "flt_less f (Finite 0) \<Longrightarrow> py_min (py_max (PFloat f) (PInt 0)) (PInt 1) = PInt 0"
  by (simp add: py_min_def py_max_def num_less_def)

lemma clamp_high: "flt_less (Finite 1) f \<Longrightarrow> py_min (py_max (PFloat f) (PInt 0)) (PInt 1) = PInt 1"
  by (cases f) (auto simp: py_min_def py_max_def num_less_def)

lemma clamp_mid:
  "\<not> flt_less f (Finite 0) \<Longrightarrow> \<not> flt_less (Finite 1) f \<Longrightarrow>
   py_min (py_max (PFloat f) (PInt 0)) (PInt 1) = PFloat f"
  by (simp add: py_min_def py_max_def num_less_def)

lemma clamp_range:
  "f \<noteq> NaN \<Longrightarrow> \<exists>q. num_val (py_min (py_max (PFloat f) (PInt 0)) (PInt 1)) = Finite q \<and> 0 \<le> q \<and> q \<le> 1"
  by (cases f) (auto simp: py_min_def py_max_def num_less_def)

lemma py_slice_to_length:
  "py_slice_to n v = Inr t \<Longrightarrow>
   (\<exists>s. t = JStr s \<and> length s \<le> n) \<or> (\<exists>xs. t = JArr xs \<and> length xs \<le> n)"
  by (cases v) auto

lemma py_in_iff: "py_in v xs \<longleftrightarrow> (\<exists>s. v = JStr s \<and> s \<in> set xs)"
  by (cases v) auto

lemma validate_parsed_task_Inr:
  assumes "validate_parsed_task rt (JObj d) = Inr r"
  obtains t f where
    "py_slice_to 255 (dict_get_default d ''title'' (JStr ''New Task'')) = Inr t"
    "py_float rt (dict_get_default d ''confidence'' (JNum (PFloat (Finite (1 / 2))))) = Inr f"
    "title r = t"
    "description r = dict_get d ''description''"
    "priority r = (if py_in (dict_get d ''priority'') valid_priorities
                   then dict_get_default d ''priority'' (JStr ''medium'') else JStr ''medium'')"
    "category r = (if py_in (dict_get d ''category'') valid_categories
                   then dict_get_default d ''category'' (JStr ''other'') else JStr ''other'')"
    "due_date r = dict_get d ''due_date''"
    "confidence r = py_min (py_max (PFloat f) (PInt 0)) (PInt 1)"
  using assms
  by (auto simp: validate_parsed_task_def split: sum.splits)

lemma priority_field:
  "(if py_in (dict_get d k) xs then dict_get_default d k dflt else dflt) =
   (case map_of d k of Some (JStr s) \<Rightarrow> if s \<in> set xs then JStr s else dflt | _ \<Rightarrow> dflt)"
proof (cases "map_of d k")
  case None
  then show ?thesis by (simp add: dict_get_def dict_get_default_def)
next
  case (Some v)
  then show ?thesis by (cases v) (simp_all add: dict_get_def dict_get_default_def)
qed

text \<open>
  C1, as the code has it. When \<^verbatim>\<open>_validate_parsed_task\<close> returns on a dictionary, the
  priority is one of the four priorities and the category one of the seven categories;
  the title is a string of at most 255 characters (or, if the backend sent a list, a list
  of at most 255 items), and \<^verbatim>\<open>New Task\<close> if there was none; a priority or category
  that is missing or not of the enumeration is replaced by \<^verbatim>\<open>medium\<close> or
  \<^verbatim>\<open>other\<close>; a missing confidence is 0.5. A confidence that is present is coerced to
  a float and clamped, not replaced: below 0 it becomes 0, above 1 it becomes 1, and
  otherwise it is kept, so that it lies in \<open>[0, 1]\<close> whenever the coerced value is not
  NaN.
\<close>

theorem validate_domains:
  assumes "validate_parsed_task rt (JObj d) = Inr r"
  shows "priority r \<in> {JStr ''low'', JStr ''medium'', JStr ''high'', JStr ''urgent''}
       \<and> category r \<in> {JStr ''work'', JStr ''personal'', JStr ''health'', JStr ''finance'',
                          JStr ''learning'', JStr ''errands'', JStr ''other''}
       \<and> ((\<exists>s. title r = JStr s \<and> length s \<le> 255) \<or> (\<exists>xs. title r = JArr xs \<and> length xs \<le> 255))
       \<and> (\<exists>f. py_float rt (dict_get_default d ''confidence'' (JNum (PFloat (Finite (1 / 2))))) = Inr f
              \<and> (f \<noteq> NaN \<longrightarrow> (\<exists>q. num_val (confidence r) = Finite q \<and> 0 \<le> q \<and> q \<le> 1))
              \<and> (flt_less f (Finite 0) \<longrightarrow> confidence r = PInt 0)
              \<and> (flt_less (Finite 1) f \<longrightarrow> confidence r = PInt 1)
              \<and> (f \<noteq> NaN \<and> \<not> flt_less f (Finite 0) \<and> \<not> flt_less (Finite 1) f \<longrightarrow> confidence r = PFloat f))
       \<and> (map_of d ''title'' = None \<longrightarrow> title r = JStr ''New Task'')
       \<and> (map_of d ''priority'' \<notin> {Some (JStr ''low''), Some (JStr ''medium''), Some (JStr ''high''),
                                    Some (JStr ''urgent'')} \<longrightarrow> priority r = JStr ''medium'')
       \<and> (map_of d ''category'' \<notin> {Some (JStr ''work''), Some (JStr ''personal''), Some (JStr ''health''),
                                    Some (JStr ''finance''), Some (JStr ''learning''),
                                    Some (JStr ''errands''), Some (JStr ''other'')} \<longrightarrow> category r = JStr ''other'')
       \<and> (map_of d ''confidence'' = None \<longrightarrow> confidence r = PFloat (Finite (1 / 2)))"
proof -
  from assms obtain t f where
    t: "py_slice_to 255 (dict_get_default d ''title'' (JStr ''New Task'')) = Inr t"
    and f: "py_float rt (dict_get_default d ''confidence'' (JNum (PFloat (Finite (1 / 2))))) = Inr f"
    and ti: "title r = t"
    and pr: "priority r = (if py_in (dict_get d ''priority'') valid_priorities
                   then dict_get_default d ''priority'' (JStr ''medium'') else JStr ''medium'')"
    and ca: "category r = (if py_in (dict_get d ''category'') valid_categories
                   then dict_get_default d ''category'' (JStr ''other'') else JStr ''other'')"
    and co: "confidence r = py_min (py_max (PFloat f) (PInt 0)) (PInt 1)"
    by (rule validate_parsed_task_Inr)
  have p1: "priority r \<in> {JStr ''low'', JStr ''medium'', JStr ''high'', JStr ''urgent''}"
    unfolding pr priority_field by (simp add: valid_priorities_def split: option.splits json.splits)
  have p2: "map_of d ''priority'' \<notin> {Some (JStr ''low''), Some (JStr ''medium''), Some (JStr ''high''),
              Some (JStr ''urgent'')} \<longrightarrow> priority r = JStr ''medium''"
    unfolding pr priority_field by (simp add: valid_priorities_def split: option.splits json.splits)
  have c1: "category r \<in> {JStr ''work'', JStr ''personal'', JStr ''health'', JStr ''finance'',
                          JStr ''learning'', JStr ''errands'', JStr ''other''}"
    unfolding ca priority_field by (simp add: valid_categories_def split: option.splits json.splits)
  have c2: "map_of d ''category'' \<notin> {Some (JStr ''work''), Some (JStr ''personal''), Some (JStr ''health''),
              Some (JStr ''finance''), Some (JStr ''learning''),
              Some (JStr ''errands''), Some (JStr ''other'')} \<longrightarrow> category r = JStr ''other''"
    unfolding ca priority_field by (simp add: valid_categories_def split: option.splits json.splits)
  have t1: "(\<exists>s. title r = JStr s \<and> length s \<le> 255) \<or> (\<exists>xs. title r = JArr xs \<and> length xs \<le> 255)"
    using py_slice_to_length [OF t] ti by simp
  have t2: "map_of d ''title'' = None \<longrightarrow> title r = JStr ''New Task''"
    using t ti by (auto simp: dict_get_default_def)
  have f1: "f \<noteq> NaN \<longrightarrow> (\<exists>q. num_val (confidence r) = Finite q \<and> 0 \<le> q \<and> q \<le> 1)"
    unfolding co using clamp_range by blast
  have f2: "flt_less f (Finite 0) \<longrightarrow> confidence r = PInt 0"
    unfolding co using clamp_low by blast
  have f3: "flt_less (Finite 1) f \<longrightarrow> confidence r = PInt 1"
    unfolding co using clamp_high by blast
  have f4: "f \<noteq> NaN \<and> \<not> flt_less f (Finite 0) \<and> \<not> flt_less (Finite 1) f \<longrightarrow> confidence r = PFloat f"
    unfolding co using clamp_mid by blast
  have f5: "map_of d ''confidence'' = None \<longrightarrow> confidence r = PFloat (Finite (1 / 2))"
  proof
    assume "map_of d ''confidence'' = None"
    with f have "f = Finite (1 / 2)" by (simp add: dict_get_default_def)
    then show "confidence r = PFloat (Finite (1 / 2))"
      unfolding co by (simp add: py_min_def py_max_def num_less_def)
  qed
  from f f1 f2 f3 f4
  have fx: "\<exists>f. py_float rt (dict_get_default d ''confidence'' (JNum (PFloat (Finite (1 / 2))))) = Inr f
              \<and> (f \<noteq> NaN \<longrightarrow> (\<exists>q. num_val (confidence r) = Finite q \<and> 0 \<le> q \<and> q \<le> 1))
              \<and> (flt_less f (Finite 0) \<longrightarrow> confidence r = PInt 0)
              \<and> (flt_less (Finite 1) f \<longrightarrow> confidence r = PInt 1)
              \<and> (f \<noteq> NaN \<and> \<not> flt_less f (Finite 0) \<and> \<not> flt_less (Finite 1) f \<longrightarrow> confidence r = PFloat f)"
    by (intro exI [of _ f] conjI)
  show ?thesis
    by (intro conjI p1 c1 t1 fx t2 p2 c2 f5)
qed


theorem validate_domains_witness:
  "validate_parsed_task py
     (JObj [(''title'', JStr ''Call John''), (''priority'', JStr ''high''),
            (''category'', JStr ''chores''), (''confidence'', JNum (PFloat (Finite (3 / 2))))])
     = Inr \<lparr> title = JStr ''Call John'', description = JNull, priority = JStr ''high'',
             category = JStr ''other'', due_date = JNull, confidence = PInt 1 \<rparr>
   \<and> (\<exists>q. num_val (PInt 1) = Finite q \<and> 0 \<le> q \<and> q \<le> 1)"
proof -
  let ?d = "[(''title'', JStr ''Call John''), (''priority'', JStr ''high''),
            (''category'', JStr ''chores''), (''confidence'', JNum (PFloat (Finite (3 / 2))))]"
  let ?r = "\<lparr> title = JStr ''Call John'', description = JNull, priority = JStr ''high'',
             category = JStr ''other'', due_date = JNull, confidence = PInt 1 \<rparr>"
  have h: "validate_parsed_task py (JObj ?d) = Inr ?r"
    by (simp add: validate_parsed_task_def dict_get_def dict_get_default_def valid_priorities_def
        valid_categories_def py_min_def py_max_def num_less_def)
  have g: "py_float py (dict_get_default ?d ''confidence'' (JNum (PFloat (Finite (1 / 2)))))
             = Inr (Finite (3 / 2))"
    by (simp add: dict_get_default_def)
  from validate_domains [OF h] g
  have "\<exists>q. num_val (confidence ?r) = Finite q \<and> 0 \<le> q \<and> q \<le> 1"
    by auto
  with h show ?thesis by simp
qed

text \<open>
  The claim as stated fails in two places. A confidence of 7 is out of range and comes
  back as 1, not as 0.5. A confidence of NaN, which \<^verbatim>\<open>json.loads\<close> accepts, passes
  both \<^verbatim>\<open>max\<close> and \<^verbatim>\<open>min\<close>, since every comparison with it is false, and comes
  back as NaN.
\<close>

theorem validate_confidence_counterexample:
  "validate_parsed_task py (JObj [(''confidence'', JNum (PInt 7))])
     = Inr \<lparr> title = JStr ''New Task'', description = JNull, priority = JStr ''medium'',
             category = JStr ''other'', due_date = JNull, confidence = PInt 1 \<rparr>
   \<and> num_val (PInt 1) \<noteq> Finite (1 / 2)
   \<and> validate_parsed_task py (JObj [(''confidence'', JNum (PFloat NaN))])
     = Inr \<lparr> title = JStr ''New Task'', description = JNull, priority = JStr ''medium'',
             category = JStr ''other'', due_date = JNull, confidence = PFloat NaN \<rparr>
   \<and> num_val (PFloat NaN) = NaN"
proof -
  have seven: "float_of_int 7 = Inr (Finite 7)" by code_simp
  show ?thesis
    by (simp add: validate_parsed_task_def dict_get_def dict_get_default_def valid_priorities_def
        valid_categories_def py_min_def py_max_def num_less_def seven)
qed

section \<open>Properties of the parse operation\<close>

lemma parse_available:
  "fst (parse_natural_language rt (svc\<lparr>model := Some g\<rparr>) text) =
     (case g (parse_prompt rt text) of
        Inl e \<Rightarrow> fallback_parse text
      | Inr response \<Rightarrow>
          (case extract_json rt response of
             Inl e \<Rightarrow> fallback_parse text
           | Inr result \<Rightarrow>
               (case validate_parsed_task rt result of
                  Inl e \<Rightarrow> fallback_parse text
                | Inr task \<Rightarrow> task)))"
  by (simp add: parse_natural_language_def is_available_def generate_content_def Let_def)

lemma validate_bad_confidence:
  assumes "py_slice_to 255 (dict_get_default d ''title'' (JStr ''New Task'')) = Inr t"
    and "py_float rt (dict_get_default d ''confidence'' (JNum (PFloat (Finite (1 / 2))))) = Inl e"
  shows "validate_parsed_task rt (JObj d) = Inl e"
  using assms by (simp add: validate_parsed_task_def)

text \<open>
  C2. \<^verbatim>\<open>parse_natural_language\<close> returns a record, never an exception: whenever the
  backend call raises, or the extraction raises, or the validation raises, the result is
  the fallback record for the input text. In particular a confidence that \<^verbatim>\<open>float\<close>
  rejects (\<^verbatim>\<open>TypeError\<close> or \<^verbatim>\<open>ValueError\<close>) gives exactly the result of a call
  whose backend failed.
\<close>

theorem parse_catches_every_exception:
  "(g (parse_prompt rt text) = Inl e \<longrightarrow>
      fst (parse_natural_language rt (svc\<lparr>model := Some g\<rparr>) text) = fallback_parse text)
   \<and> (g (parse_prompt rt text) = Inr response \<and> extract_json rt response = Inl e \<longrightarrow>
      fst (parse_natural_language rt (svc\<lparr>model := Some g\<rparr>) text) = fallback_parse text)
   \<and> (g (parse_prompt rt text) = Inr response \<and> extract_json rt response = Inr result
        \<and> validate_parsed_task rt result = Inl e \<longrightarrow>
      fst (parse_natural_language rt (svc\<lparr>model := Some g\<rparr>) text) = fallback_parse text)
   \<and> (g (parse_prompt rt text) = Inr response \<and> extract_json rt response = Inr (JObj d)
        \<and> py_slice_to 255 (dict_get_default d ''title'' (JStr ''New Task'')) = Inr t
        \<and> py_float rt (dict_get_default d ''confidence'' (JNum (PFloat (Finite (1 / 2))))) = Inl e \<longrightarrow>
      fst (parse_natural_language rt (svc\<lparr>model := Some g\<rparr>) text)
        = fst (parse_natural_language rt (svc\<lparr>model := Some (\<lambda>prompt. Inl e')\<rparr>) text))"
  by (auto simp: parse_available validate_bad_confidence)

theorem parse_catches_every_exception_witness:
  \<open>validate_parsed_task py (JObj [(''title'', JStr ''Call John''), (''confidence'', JStr ''high'')])
     = Inl ValueError
   \<and> fst (parse_natural_language py
            \<lparr>model = Some (\<lambda>prompt. Inr ''{"title": "Call John", "confidence": "high"}'')\<rparr>
            ''Call John tomorrow at 3pm'')
     = fallback_parse ''Call John tomorrow at 3pm''
   \<and> fst (parse_natural_language py
            \<lparr>model = Some (\<lambda>prompt. Inl (BackendError ''connection reset''))\<rparr>
            ''Call John tomorrow at 3pm'')
     = fallback_parse ''Call John tomorrow at 3pm''\<close>
proof -
  let ?g = \<open>\<lambda>prompt :: string. (Inr ''{"title": "Call John", "confidence": "high"}'' :: exn + string)\<close>
  let ?n = "\<lambda>prompt :: string. (Inl (BackendError ''connection reset'') :: exn + string)"
  let ?d = "[(''title'', JStr ''Call John''), (''confidence'', JStr ''high'')]"
  let ?text = "''Call John tomorrow at 3pm''"
  have x: \<open>extract_json py ''{"title": "Call John", "confidence": "high"}'' = Inr (JObj ?d)\<close>
    by code_simp
  have v: "validate_parsed_task py (JObj ?d) = Inl ValueError"
    by code_simp
  from parse_catches_every_exception
    [of ?g py ?text ValueError "\<lparr>model = None\<rparr>" \<open>''{"title": "Call John", "confidence": "high"}''\<close>
        "JObj ?d"] x v
  have a: "fst (parse_natural_language py \<lparr>model = Some ?g\<rparr> ?text) = fallback_parse ?text"
    by simp
  from parse_catches_every_exception
    [of ?n py ?text "BackendError ''connection reset''" "\<lparr>model = None\<rparr>"]
  have b: "fst (parse_natural_language py \<lparr>model = Some ?n\<rparr> ?text) = fallback_parse ?text"
    by simp
  from v a b show ?thesis by simp
qed

text \<open>
  C10. A title that is present and null makes the validation raise (\<^verbatim>\<open>None\<close> cannot be
  sliced), so that \<^verbatim>\<open>parse_natural_language\<close> returns the fallback record, whose title
  is the input text (cut to 100 characters). The default \<^verbatim>\<open>New Task\<close> is the title
  when the key is absent; when the key is present the title is the slice of its value.
\<close>

theorem null_title_falls_back:
  "(map_of d ''title'' = Some JNull \<longrightarrow> validate_parsed_task rt (JObj d) = Inl TypeError)
   \<and> (g (parse_prompt rt text) = Inr response \<and> extract_json rt response = Inr (JObj d)
        \<and> map_of d ''title'' = Some JNull \<longrightarrow>
      fst (parse_natural_language rt (svc\<lparr>model := Some g\<rparr>) text) = fallback_parse text
      \<and> title (fallback_parse text) = JStr (take 100 text))
   \<and> (map_of d ''title'' = None \<and> validate_parsed_task rt (JObj d) = Inr r \<longrightarrow>
      title r = JStr ''New Task'')
   \<and> (map_of d ''title'' = Some v \<and> validate_parsed_task rt (JObj d) = Inr r \<longrightarrow>
      py_slice_to 255 v = Inr (title r))"
proof -
  have a: "map_of d ''title'' = Some JNull \<longrightarrow> validate_parsed_task rt (JObj d) = Inl TypeError"
    by (simp add: validate_parsed_task_def dict_get_default_def)
  have b: "map_of d ''title'' = None \<and> validate_parsed_task rt (JObj d) = Inr r \<longrightarrow>
      title r = JStr ''New Task''"
    by (auto simp: validate_parsed_task_def dict_get_default_def split: sum.splits)
  have c: "map_of d ''title'' = Some v \<and> validate_parsed_task rt (JObj d) = Inr r \<longrightarrow>
      py_slice_to 255 v = Inr (title r)"
    by (auto simp: validate_parsed_task_def dict_get_default_def split: sum.splits)
  from a b c show ?thesis
    by (auto simp: parse_available fallback_parse_def)
qed

theorem null_title_falls_back_witness:
  \<open>extract_json py ''{"title": null, "priority": "high"}''
     = Inr (JObj [(''title'', JNull), (''priority'', JStr ''high'')])
   \<and> validate_parsed_task py (JObj [(''title'', JNull), (''priority'', JStr ''high'')]) = Inl TypeError
   \<and> fst (parse_natural_language py
            \<lparr>model = Some (\<lambda>prompt. Inr ''{"title": null, "priority": "high"}'')\<rparr>
            ''Pay the rent on Friday'')
     = \<lparr> title = JStr ''Pay the rent on Friday'', description = JNull, priority = JStr ''medium'',
         category = JStr ''other'', due_date = JNull, confidence = PFloat (Finite (1 / 2)) \<rparr>
   \<and> validate_parsed_task py (JObj [(''priority'', JStr ''high'')])
     = Inr \<lparr> title = JStr ''New Task'', description = JNull, priority = JStr ''high'',
             category = JStr ''other'', due_date = JNull, confidence = PFloat (Finite (1 / 2)) \<rparr>\<close>
proof -
  let ?g = \<open>\<lambda>prompt :: string. (Inr ''{"title": null, "priority": "high"}'' :: exn + string)\<close>
  let ?d = "[(''title'', JNull), (''priority'', JStr ''high'')]"
  let ?text = "''Pay the rent on Friday''"
  have x: \<open>extract_json py ''{"title": null, "priority": "high"}'' = Inr (JObj ?d)\<close>
    by code_simp
  have m: "map_of ?d ''title'' = Some JNull" by simp
  have w: "validate_parsed_task py (JObj [(''priority'', JStr ''high'')])
     = Inr \<lparr> title = JStr ''New Task'', description = JNull, priority = JStr ''high'',
             category = JStr ''other'', due_date = JNull, confidence = PFloat (Finite (1 / 2)) \<rparr>"
    by (simp add: validate_parsed_task_def dict_get_def dict_get_default_def valid_priorities_def
        valid_categories_def py_min_def py_max_def num_less_def)
  from null_title_falls_back [of ?d py ?g ?text \<open>''{"title": null, "priority": "high"}''\<close> "\<lparr>model = None\<rparr>"] x m
  have "validate_parsed_task py (JObj ?d) = Inl TypeError
        \<and> fst (parse_natural_language py \<lparr>model = Some ?g\<rparr> ?text) = fallback_parse ?text"
    by simp
  with x w show ?thesis by (simp add: fallback_parse_def)
qed

section \<open>Properties of the prioritisation\<close>

text \<open>Equality of dictionary keys is symmetric and transitive.\<close>

lemma json_num_cases:
  "json_num a = Some x \<longleftrightarrow> a = JNum x \<or> (\<exists>b. a = JBool b \<and> x = PInt (if b then 1 else 0))"
  by (cases a) auto

lemma key_eq_alt:
  "key_eq a b \<longleftrightarrow>
     (\<exists>s. a = JStr s \<and> b = JStr s) \<or> (a = JNull \<and> b = JNull)
     \<or> (\<exists>x y. json_num a = Some x \<and> json_num b = Some y \<and> num_eq x y)"
  by (cases a; cases b) (auto split: option.splits)

lemma key_eq_sym: "key_eq a b \<Longrightarrow> key_eq b a"
  unfolding key_eq_alt by (auto simp: num_eq_def)

lemma key_eq_trans: "key_eq a b \<Longrightarrow> key_eq b c \<Longrightarrow> key_eq a c"
  unfolding key_eq_alt by (auto simp: num_eq_def)

lemma map_lookup_store:
  "map_lookup (map_store m k t) tid = (if key_eq k tid then Some t else map_lookup m tid)"
proof (induction m)
  case Nil
  show ?case by simp
next
  case (Cons kv m)
  obtain k' t' where kv: "kv = (k', t')" by (cases kv)
  show ?case
  proof (cases "key_eq k' k")
    case True
    then show ?thesis using kv
      by (auto dest: key_eq_trans key_eq_sym)
  next
    case False
    then show ?thesis using kv Cons.IH
      by (auto dest: key_eq_trans key_eq_sym)
  qed
qed


lemma find_snoc:
  "List.find P (xs @ [x]) = (case List.find P xs of None \<Rightarrow> (if P x then Some x else None) | Some y \<Rightarrow> Some y)"
  by (induction xs) auto

lemma build_task_map_lookup:
  "build_task_map m ts = Inr tm \<Longrightarrow>
   map_lookup tm tid =
     (case List.find (\<lambda>t. has_id t tid) (rev ts) of None \<Rightarrow> map_lookup m tid | Some t \<Rightarrow> Some t)"
proof (induction ts arbitrary: m)
  case Nil
  then show ?case by simp
next
  case (Cons t ts)
  from Cons.prems obtain k where k: "map_of t ''id'' = Some k" and h: "hashable k"
    and b: "build_task_map (map_store m k t) ts = Inr tm"
    by (auto simp: dict_item_def split: option.splits if_splits)
  from Cons.IH [OF b] k show ?case
    by (auto simp: find_snoc map_lookup_store has_id_def split: option.splits)
qed

lemma build_task_map_total:
  "\<forall>t\<in>set ts. \<exists>k. map_of t ''id'' = Some k \<and> hashable k \<Longrightarrow> \<exists>tm. build_task_map m ts = Inr tm"
  by (induction ts arbitrary: m) (auto simp: dict_item_def)

lemma task_ids_total:
  "\<forall>t\<in>set ts. \<exists>k. map_of t ''id'' = Some k \<and> hashable k \<Longrightarrow> \<exists>ids. task_ids ts = Inr ids"
  by (induction ts) (auto simp: dict_item_def)

lemma reorder_map_filter:
  "\<forall>tid\<in>set order. hashable tid \<Longrightarrow> reorder tm order = Inr (List.map_filter (map_lookup tm) order)"
  by (induction order) (auto simp: List.map_filter_simps split: option.splits)

lemma map_filter_mem:
  "t \<in> set (List.map_filter f xs) \<Longrightarrow> \<exists>x\<in>set xs. f x = Some t"
  by (auto simp: List.map_filter_def)

lemma length_map_filter_le: "length (List.map_filter f xs) \<le> length xs"
  by (simp add: List.map_filter_def)

lemma find_has_id:
  "List.find (\<lambda>t. has_id t tid) ts = Some t \<Longrightarrow> t \<in> set ts \<and> has_id t tid"
  by (auto simp: find_Some_iff)

lemma reorder_by_response_ok:
  assumes x: "extract_json rt response = Inr (JObj result)"
    and o: "map_of result ''order'' = Some (JArr order)"
    and ho: "\<forall>tid\<in>set order. hashable tid"
    and ht: "\<forall>t\<in>set tasks. \<exists>k. map_of t ''id'' = Some k \<and> hashable k"
  shows "reorder_by_response rt tasks response =
           Inr \<lparr> prioritized_tasks =
                   List.map_filter (\<lambda>tid. List.find (\<lambda>t. has_id t tid) (rev tasks)) order,
                 reasoning = dict_get_default result ''reasoning'' (JStr ''Prioritized by AI'') \<rparr>"
proof -
  from task_ids_total [OF ht] obtain ids where ids: "task_ids tasks = Inr ids" ..
  from build_task_map_total [OF ht] obtain tm where tm: "build_task_map [] tasks = Inr tm" ..
  have l: "map_lookup tm = (\<lambda>tid. List.find (\<lambda>t. has_id t tid) (rev tasks))"
    by (rule ext) (simp add: build_task_map_lookup [OF tm] split: option.splits)
  from o have it: "py_iter (dict_get_default result ''order'' (JArr ids)) = Inr order"
    by (simp add: dict_get_default_def)
  show ?thesis
    by (simp add: reorder_by_response_def x ids tm it reorder_map_filter [OF ho] l)
qed

text \<open>
  C4. When the backend answers with an object whose \<^verbatim>\<open>order\<close> is a list of ids,
  \<^verbatim>\<open>prioritize_tasks\<close> returns the tasks in the order of that list: each id of the
  list is mapped to the input task with that id (the last one, should two tasks share
  it) and an id that no input task has is skipped. So every task of the result is an
  input task whose id is in the list, an input task whose id the list omits is not in
  the result, and nothing is appended. For tasks with the ids 1, 2, 3 and the order
  \<^verbatim>\<open>[3, 1]\<close> the result is task 3, task 1.
\<close>

theorem prioritize_follows_order:
  assumes "model svc = Some g"
    and "tasks \<noteq> []"
    and "task_lines rt tasks = Inr ls"
    and "g (prioritize_prompt (join_lines ls)) = Inr response"
    and "extract_json rt response = Inr (JObj result)"
    and "map_of result ''order'' = Some (JArr order)"
    and "\<forall>tid\<in>set order. hashable tid"
    and "\<forall>t\<in>set tasks. \<exists>k. map_of t ''id'' = Some k \<and> hashable k"
  shows "\<exists>r. fst (prioritize_tasks rt svc tasks) = Inr r
           \<and> prioritized_tasks r =
               List.map_filter (\<lambda>tid. List.find (\<lambda>t. has_id t tid) (rev tasks)) order
           \<and> (\<forall>t\<in>set (prioritized_tasks r). t \<in> set tasks \<and> (\<exists>tid\<in>set order. has_id t tid))
           \<and> (\<forall>t\<in>set tasks. (\<forall>tid\<in>set order. \<not> has_id t tid) \<longrightarrow> t \<notin> set (prioritized_tasks r))
           \<and> length (prioritized_tasks r) \<le> length order"
proof -
  let ?p = "List.map_filter (\<lambda>tid. List.find (\<lambda>t. has_id t tid) (rev tasks)) order"
  let ?r = "\<lparr> prioritized_tasks = ?p,
              reasoning = dict_get_default result ''reasoning'' (JStr ''Prioritized by AI'') \<rparr>"
  have r: "fst (prioritize_tasks rt svc tasks) = Inr ?r"
    using assms(1-4) reorder_by_response_ok [OF assms(5-8)]
    by (simp add: prioritize_tasks_def is_available_def generate_content_def Let_def)
  have m: "\<forall>t\<in>set ?p. t \<in> set tasks \<and> (\<exists>tid\<in>set order. has_id t tid)"
  proof
    fix t assume "t \<in> set ?p"
    then obtain tid where tid: "tid \<in> set order"
      and f: "List.find (\<lambda>t. has_id t tid) (rev tasks) = Some t"
      by (blast dest: map_filter_mem)
    from find_has_id [OF f] tid show "t \<in> set tasks \<and> (\<exists>tid\<in>set order. has_id t tid)"
      by auto
  qed
  then have n: "\<forall>t\<in>set tasks. (\<forall>tid\<in>set order. \<not> has_id t tid) \<longrightarrow> t \<notin> set ?p"
    by blast
  have l: "length ?p \<le> length order" by (rule length_map_filter_le)
  from r m n l show ?thesis by simp
qed


theorem prioritize_follows_order_witness:
  \<open>\<exists>r. fst (prioritize_tasks py
              \<lparr>model = Some (\<lambda>prompt. Inr ''{"order": [3, 1], "reasoning": "deadlines first"}'')\<rparr>
              [[(''id'', JNum (PInt 1)), (''title'', JStr ''Write report''), (''priority'', JStr ''high''),
                (''category'', JStr ''work''), (''due_date'', JNull)],
               [(''id'', JNum (PInt 2)), (''title'', JStr ''Buy milk''), (''priority'', JStr ''low''),
                (''category'', JStr ''errands''), (''due_date'', JNull)],
               [(''id'', JNum (PInt 3)), (''title'', JStr ''Call John''), (''priority'', JStr ''urgent''),
                (''category'', JStr ''personal''), (''due_date'', JStr ''2024-01-02T15:00:00'')]]) = Inr r
       \<and> prioritized_tasks r =
           [[(''id'', JNum (PInt 3)), (''title'', JStr ''Call John''), (''priority'', JStr ''urgent''),
             (''category'', JStr ''personal''), (''due_date'', JStr ''2024-01-02T15:00:00'')],
            [(''id'', JNum (PInt 1)), (''title'', JStr ''Write report''), (''priority'', JStr ''high''),
             (''category'', JStr ''work''), (''due_date'', JNull)]]
       \<and> [(''id'', JNum (PInt 2)), (''title'', JStr ''Buy milk''), (''priority'', JStr ''low''),
           (''category'', JStr ''errands''), (''due_date'', JNull)] \<notin> set (prioritized_tasks r)\<close>
proof -
  let ?t1 = "[(''id'', JNum (PInt 1)), (''title'', JStr ''Write report''), (''priority'', JStr ''high''),
              (''category'', JStr ''work''), (''due_date'', JNull)]"
  let ?t2 = "[(''id'', JNum (PInt 2)), (''title'', JStr ''Buy milk''), (''priority'', JStr ''low''),
              (''category'', JStr ''errands''), (''due_date'', JNull)]"
  let ?t3 = "[(''id'', JNum (PInt 3)), (''title'', JStr ''Call John''), (''priority'', JStr ''urgent''),
              (''category'', JStr ''personal''), (''due_date'', JStr ''2024-01-02T15:00:00'')]"
  let ?response = \<open>''{"order": [3, 1], "reasoning": "deadlines first"}''\<close>
  let ?g = "\<lambda>prompt :: string. (Inr ?response :: exn + string)"
  let ?ls = "[''- ID 1: Write report (due: None, category: work)'',
              ''- ID 2: Buy milk (due: None, category: errands)'',
              ''- ID 3: Call John (due: 2024-01-02T15:00:00, category: personal)'']"
  let ?result = "[(''order'', JArr [JNum (PInt 3), JNum (PInt 1)]), (''reasoning'', JStr ''deadlines first'')]"
  have a1: "model \<lparr>model = Some ?g\<rparr> = Some ?g" by simp
  have a2: "[?t1, ?t2, ?t3] \<noteq> []" by simp
  have a3: "task_lines py [?t1, ?t2, ?t3] = Inr ?ls" by code_simp
  have a4: "?g (prioritize_prompt (join_lines ?ls)) = Inr ?response" by simp
  have a5: "extract_json py ?response = Inr (JObj ?result)" by code_simp
  have a6: "map_of ?result ''order'' = Some (JArr [JNum (PInt 3), JNum (PInt 1)])" by simp
  have a7: "\<forall>tid\<in>set [JNum (PInt 3), JNum (PInt 1)]. hashable tid" by simp
  have a8: "\<forall>t\<in>set [?t1, ?t2, ?t3]. \<exists>k. map_of t ''id'' = Some k \<and> hashable k" by simp
  have e: "List.map_filter (\<lambda>tid. List.find (\<lambda>t. has_id t tid) (rev [?t1, ?t2, ?t3]))
             [JNum (PInt 3), JNum (PInt 1)] = [?t3, ?t1]"
    by (simp add: List.map_filter_simps has_id_def num_eq_def)
  from prioritize_follows_order [OF a1 a2 a3 a4 a5 a6 a7 a8]
  obtain r where r: "fst (prioritize_tasks py \<lparr>model = Some ?g\<rparr> [?t1, ?t2, ?t3]) = Inr r"
    and p: "prioritized_tasks r =
              List.map_filter (\<lambda>tid. List.find (\<lambda>t. has_id t tid) (rev [?t1, ?t2, ?t3]))
                [JNum (PInt 3), JNum (PInt 1)]"
    by blast
  from p e have "prioritized_tasks r = [?t3, ?t1]" by simp
  with r show ?thesis by simp
qed

section \<open>Properties of the text extractor\<close>

text \<open>
  The search for an object does not see what the cleaning removes: whitespace, fences,
  the word after a fence and newlines contain no brace, and a match starts and ends with
  one.
\<close>

lemma search_object_prefix:
  "\<forall>c\<in>set p. \<not> is_brace c \<Longrightarrow> search_object (p @ s) = search_object s"
  by (induction p) (auto simp: is_brace_def)

lemma search_object_suffix:
  "\<forall>c\<in>set q. \<not> is_brace c \<Longrightarrow> search_object (s @ q) = search_object s"
proof (induction s)
  case Nil
  then show ?case using search_object_prefix [of q "[]"] by simp
next
  case (Cons c s)
  show ?case
  proof (cases "c = CHR ''{''")
    case False
    with Cons show ?thesis by simp
  next
    case True
    show ?thesis
    proof (cases "\<forall>x\<in>set s. \<not> is_brace x")
      case True
      with Cons.prems have d1: "dropWhile (\<lambda>x. \<not> is_brace x) (s @ q) = []"
        and d2: "dropWhile (\<lambda>x. \<not> is_brace x) s = []"
        by (simp_all add: ball_Un)
      have "search_object (c # (s @ q)) = search_object (s @ q)"
        by (simp only: search_object.simps d1 list.case if_cancel)
      moreover have "search_object (c # s) = search_object s"
        by (simp only: search_object.simps d2 list.case if_cancel)
      ultimately show ?thesis using Cons by simp
    next
      case False
      then have d: "dropWhile (\<lambda>x. \<not> is_brace x) (s @ q) = dropWhile (\<lambda>x. \<not> is_brace x) s @ q"
        and t: "takeWhile (\<lambda>x. \<not> is_brace x) (s @ q) = takeWhile (\<lambda>x. \<not> is_brace x) s"
        and n: "dropWhile (\<lambda>x. \<not> is_brace x) s \<noteq> []"
        by (auto simp: dropWhile_append1 takeWhile_append1)
      from n obtain d' r where dr: "dropWhile (\<lambda>x. \<not> is_brace x) s = d' # r"
        by (cases "dropWhile (\<lambda>x. \<not> is_brace x) s") auto
      have "search_object (c # (s @ q)) =
              (if d' = CHR ''}'' then Some (c # takeWhile (\<lambda>x. \<not> is_brace x) s @ [d'])
               else search_object (s @ q))"
        using \<open>c = CHR ''{''\<close> by (simp only: search_object.simps d t dr append_Cons list.case if_True simp_thms)
      moreover have "search_object (c # s) =
              (if d' = CHR ''}'' then Some (c # takeWhile (\<lambda>x. \<not> is_brace x) s @ [d'])
               else search_object s)"
        using \<open>c = CHR ''{''\<close> by (simp only: search_object.simps dr list.case if_True simp_thms)
      ultimately show ?thesis using Cons by simp
    qed
  qed
qed

lemma space_no_brace: "is_space c \<Longrightarrow> \<not> is_brace c"
  by (auto simp: is_space_def is_brace_def)

lemma word_no_brace: "is_word c \<Longrightarrow> \<not> is_brace c"
  by (auto simp: is_word_def is_brace_def)

lemma nl_no_brace: "\<not> is_brace nl"
  by (simp add: nl_def is_brace_def)

lemma fence_no_brace: "\<forall>c\<in>set fence. \<not> is_brace c"
  by (simp add: fence_def is_brace_def)

lemma search_object_strip: "search_object (strip s) = search_object s"
proof -
  let ?m = "dropWhile is_space s"
  have "s = takeWhile is_space s @ ?m" by simp
  moreover have "\<forall>c\<in>set (takeWhile is_space s). \<not> is_brace c"
    by (auto dest: set_takeWhileD space_no_brace)
  ultimately have a: "search_object s = search_object ?m"
    by (metis search_object_prefix)
  have "rev ?m = takeWhile is_space (rev ?m) @ dropWhile is_space (rev ?m)" by simp
  then have "?m = rev (dropWhile is_space (rev ?m)) @ rev (takeWhile is_space (rev ?m))"
    by (metis rev_append rev_rev_ident)
  moreover have "\<forall>c\<in>set (rev (takeWhile is_space (rev ?m))). \<not> is_brace c"
    by (auto dest: set_takeWhileD space_no_brace)
  ultimately have "search_object ?m = search_object (rev (dropWhile is_space (rev ?m)))"
    by (metis search_object_suffix)
  with a show ?thesis by (simp add: strip_def)
qed

lemma search_object_sub_fence_open: "search_object (sub_fence_open s) = search_object s"
proof (cases "startswith s fence")
  case False
  then show ?thesis by (simp add: sub_fence_open_def)
next
  case True
  let ?r = "drop 3 s"
  from True have s: "s = fence @ ?r"
    by (metis append_take_drop_id startswith_def fence_def length_Cons list.size(3) numeral_3_eq_3)
  have r: "?r = takeWhile is_word ?r @ dropWhile is_word ?r" by simp
  have w: "\<forall>c\<in>set (takeWhile is_word ?r). \<not> is_brace c"
    by (auto dest: set_takeWhileD word_no_brace)
  have a: "search_object s = search_object (dropWhile is_word ?r)"
    by (metis s r w fence_no_brace search_object_prefix)
  have o: "sub_fence_open s =
             (case dropWhile is_word ?r of [] \<Rightarrow> [] | c # t \<Rightarrow> if c = nl then t else c # t)"
    by (simp only: sub_fence_open_def True if_True)
  show ?thesis
  proof (cases "dropWhile is_word ?r")
    case Nil
    show ?thesis by (simp only: o a Nil list.case)
  next
    case (Cons c t)
    show ?thesis
    proof (cases "c = nl")
      case False
      then show ?thesis by (simp only: o a Cons list.case if_False)
    next
      case True
      have "search_object ([nl] @ t) = search_object t"
        by (rule search_object_prefix) (simp add: nl_no_brace)
      then have "search_object (nl # t) = search_object t" by simp
      then show ?thesis by (simp only: o a Cons True list.case if_True simp_thms)
    qed
  qed
qed

lemma search_object_take:
  assumes "\<forall>c\<in>set (drop n s). \<not> is_brace c"
  shows "search_object (take n s) = search_object s"
  using search_object_suffix [OF assms, of "take n s"] by simp

lemma endswith_drop: "endswith s p \<Longrightarrow> drop (length s - length p) s = p"
  by (simp add: endswith_def)

lemma search_object_cut_fence: "search_object (cut_fence s) = search_object s"
proof -
  have n: "\<forall>c\<in>set (nl # fence). \<not> is_brace c"
    by (simp add: nl_no_brace fence_no_brace)
  have a: "search_object (take (length s - 4) s) = search_object s" if e: "endswith s (nl # fence)"
  proof (rule search_object_take)
    have "length (nl # fence) = 4" by (simp add: fence_def)
    with endswith_drop [OF e] have d: "drop (length s - 4) s = nl # fence" by (simp only:)
    show "\<forall>c\<in>set (drop (length s - 4) s). \<not> is_brace c" unfolding d by (rule n)
  qed
  have b: "search_object (take (length s - 3) s) = search_object s" if e: "endswith s fence"
  proof (rule search_object_take)
    have "length fence = 3" by (simp add: fence_def)
    with endswith_drop [OF e] have d: "drop (length s - 3) s = fence" by (simp only:)
    show "\<forall>c\<in>set (drop (length s - 3) s). \<not> is_brace c" unfolding d by (rule fence_no_brace)
  qed
  from a b show ?thesis by (simp add: cut_fence_def)
qed

lemma search_object_snoc_nl: "search_object (s @ [nl]) = search_object s"
  by (rule search_object_suffix) (simp add: nl_no_brace)

lemma search_object_sub_fence_close: "search_object (sub_fence_close s) = search_object s"
proof (cases "s \<noteq> [] \<and> last s = nl")
  case False
  then show ?thesis by (auto simp: sub_fence_close_def search_object_cut_fence)
next
  case True
  then have s: "s = butlast s @ [nl]" by (metis append_butlast_last_id)
  have "search_object (cut_fence (butlast s) @ [nl]) = search_object (butlast s @ [nl])"
    by (simp only: search_object_snoc_nl search_object_cut_fence)
  with s have "search_object (cut_fence (butlast s) @ [nl]) = search_object s" by simp
  with True show ?thesis by (simp add: sub_fence_close_def)
qed

lemma search_object_clean_text: "search_object (clean_text raw) = search_object raw"
  by (simp add: clean_text_def Let_def search_object_sub_fence_close
      search_object_sub_fence_open search_object_strip)

text \<open>
  C8. When the direct parse of the cleaned text fails, the result of \<^verbatim>\<open>_extract_json\<close>
  is that of searching the original text, as it was received, for the first object
  without nested braces and parsing that substring. The code runs the search on the
  cleaned text; the two searches find the same substring for every text, so the
  extractor equals the one that searches the original text.
\<close>

theorem search_on_original_text:
  "extract_json rt raw = extract_json_searching_original rt raw"
proof (cases "loads rt (clean_text raw)")
  case (Inr v)
  then show ?thesis by (simp add: extract_json_def extract_json_searching_original_def)
next
  case (Inl e)
  then show ?thesis
    by (simp add: extract_json_def extract_json_searching_original_def search_object_clean_text)
qed


theorem search_on_original_text_witness:
  \<open>clean_text (fence @ ''json'' @ [nl] @ ''Here it is: {"a": 1} and more'' @ [nl] @ fence)
     = ''Here it is: {"a": 1} and more''
   \<and> loads py ''Here it is: {"a": 1} and more'' = Inl JSONDecodeError
   \<and> search_object (fence @ ''json'' @ [nl] @ ''Here it is: {"a": 1} and more'' @ [nl] @ fence)
     = Some ''{"a": 1}''
   \<and> extract_json py (fence @ ''json'' @ [nl] @ ''Here it is: {"a": 1} and more'' @ [nl] @ fence)
     = Inr (JObj [(''a'', JNum (PInt 1))])
   \<and> extract_json_searching_original py
        (fence @ ''json'' @ [nl] @ ''Here it is: {"a": 1} and more'' @ [nl] @ fence)
     = Inr (JObj [(''a'', JNum (PInt 1))])\<close>
proof -
  let ?raw = \<open>fence @ ''json'' @ [nl] @ ''Here it is: {"a": 1} and more'' @ [nl] @ fence\<close>
  have c: \<open>clean_text ?raw = ''Here it is: {"a": 1} and more''\<close> by code_simp
  have l: \<open>loads py ''Here it is: {"a": 1} and more'' = Inl JSONDecodeError\<close> by code_simp
  have s: \<open>search_object ?raw = Some ''{"a": 1}''\<close> by code_simp
  have e: \<open>extract_json py ?raw = Inr (JObj [(''a'', JNum (PInt 1))])\<close> by code_simp
  from search_on_original_text [of py ?raw] e
  have \<open>extract_json_searching_original py ?raw = Inr (JObj [(''a'', JNum (PInt 1))])\<close>
    by simp
  with c l s e show ?thesis by simp
qed

lemma extract_json_returns:
  assumes "\<And>s e. loads rt s = Inl e \<Longrightarrow> e = JSONDecodeError"
  shows "\<exists>v. extract_json rt raw = Inr v"
proof (cases "loads rt (clean_text raw)")
  case (Inr v)
  then show ?thesis by (simp add: extract_json_def)
next
  case (Inl e)
  with assms have "e = JSONDecodeError" by blast
  with Inl show ?thesis
    by (simp add: extract_json_def split: option.splits sum.splits)
qed

lemma extract_json_empty:
  assumes "loads rt (clean_text raw) = Inl JSONDecodeError"
    and "\<And>m. search_object (clean_text raw) = Some m \<Longrightarrow> \<exists>e. loads rt m = Inl e"
  shows "extract_json rt raw = Inr (JObj [])"
  using assms by (auto simp: extract_json_def split: option.splits sum.splits)

text \<open>
  C3. For a decoder that raises nothing but \<^verbatim>\<open>JSONDecodeError\<close> the extractor always
  returns, and it returns the empty mapping when neither the cleaned text nor the
  substring found in it can be decoded (the two lemmas above). But the direct parse
  returns whatever the text decodes to: on the response \<^verbatim>\<open>[1, 2]\<close>, which contains no
  JSON object, the extractor returns the list of 1 and 2, not the empty mapping.
\<close>

theorem extract_json_returns_list:
  "extract_json py ''[1, 2]'' = Inr (JArr [JNum (PInt 1), JNum (PInt 2)])
   \<and> search_object ''[1, 2]'' = None
   \<and> JArr [JNum (PInt 1), JNum (PInt 2)] \<noteq> JObj []"
  by code_simp

end
